theory Spec2Isabelle
  imports Complex_Main
begin

section \<open>Tensors, linear layers and networks\<close>

text \<open>
  The notebooks are glue around an external tensor library. A tensor is modelled by its
  size and its flattened contents; the element type \<open>'v\<close> stays abstract, since no
  property below depends on floating-point arithmetic.
\<close>

record 'v tensor =
  shape :: "nat list"
  vals :: "'v list"

text \<open>
  \<open>nn.Linear(in_features, out_features)\<close>: the weight has size
  \<open>[out_features, in_features]\<close> and the bias size \<open>[out_features]\<close>, as the
  error message of the notebook prints them (\<open>hidden_layers.0.weight\<close> of
  \<open>Linear(784, 512)\<close> has \<open>torch.Size([512, 784])\<close>).
\<close>

record 'v linear =
  in_features :: nat
  out_features :: nat
  weight :: "'v tensor"
  bias :: "'v tensor"

text \<open>
  The printed architecture of \<open>fc_model.Network\<close>: a module list \<open>hidden_layers\<close>,
  a linear layer \<open>output\<close> (here \<open>output_layer\<close>) and a dropout module with
  probability \<open>p\<close>.
\<close>

record 'v network =
  hidden_layers :: "'v linear list"
  output_layer :: "'v linear"
  dropout :: real

datatype error =
    FileNotFoundError string
  | KeyError string
  | TypeError string
  | LoadError "string list" "string list" "(string \<times> nat list \<times> nat list) list"
  | NegativeDimension
  | ShapeError "nat list" nat
  | BatchSizeError nat nat
  | TargetOutOfBounds int
  | IndexError
  | ZeroDivisionError
  | StopIteration

text \<open>
  \<open>LoadError missing unexpected mismatches\<close> is the \<open>RuntimeError\<close> of
  \<open>load_state_dict\<close>: the keys the state dict lacks, the keys the model does not have,
  and one entry \<open>(name, shape in the checkpoint, shape in the model)\<close> for each
  \<open>size mismatch for name\<close> line. \<open>ShapeError s n\<close> is a linear layer of
  \<open>n\<close> input features applied to an input of size \<open>s\<close>;
  \<open>BatchSizeError a b\<close> is the loss function's
  \<open>Expected input batch_size (a) to match target batch_size (b)\<close> and
  \<open>TargetOutOfBounds t\<close> its \<open>Target t is out of bounds\<close>;
  \<open>NegativeDimension\<close> is the refusal to create a tensor with a negative size.
\<close>

subsection \<open>Initial parameters\<close>

text \<open>
  A new layer holds random values. The source of randomness is the parameter \<open>rnd\<close>:
  the value at each position of each named parameter.
\<close>

definition init_tensor :: "(string \<Rightarrow> nat \<Rightarrow> 'v) \<Rightarrow> string \<Rightarrow> nat list \<Rightarrow> 'v tensor" where
  "init_tensor rnd name s = \<lparr>shape = s, vals = map (rnd name) [0..<prod_list s]\<rparr>"

definition Linear :: "(string \<Rightarrow> nat \<Rightarrow> 'v) \<Rightarrow> string \<Rightarrow> nat \<Rightarrow> nat \<Rightarrow> 'v linear" where
  "Linear rnd name i o' =
     \<lparr>in_features = i, out_features = o',
      weight = init_tensor rnd (name @ ''.weight'') [o', i],
      bias = init_tensor rnd (name @ ''.bias'') [o']\<rparr>"

subsection \<open>Parameter names\<close>

text \<open>Python's \<open>str(i)\<close> for a natural number: its decimal digits.\<close>

definition digit_char :: "nat \<Rightarrow> char" where
  "digit_char d = ''0123456789'' ! d"

fun str_nat :: "nat \<Rightarrow> string" where
  "str_nat n = (if n < 10 then [digit_char n] else str_nat (n div 10) @ [digit_char (n mod 10)])"

declare str_nat.simps [simp del]

definition hidden_name :: "nat \<Rightarrow> string" where
  "hidden_name i = ''hidden_layers.'' @ str_nat i"

subsection \<open>The network constructor\<close>

text \<open>
  Modelled from the spec: \<open>fc_model.Network(input_size, output_size, hidden_layers)\<close>, whose
  module \<open>fc_model\<close> is not among the sources. The spec describes a stack of linear
  transforms with configurable hidden-layer sizes and a final linear layer producing the
  class scores; the notebook prints the result of \<open>Network(784, 10, [512, 256, 128])\<close>
  as \<open>Linear(784, 512)\<close>, \<open>Linear(512, 256)\<close>, \<open>Linear(256, 128)\<close>, the output
  \<open>Linear(128, 10)\<close> and \<open>Dropout(p=0.5)\<close>. Each hidden layer takes the width of the
  layer before it (the input size for the first) and the output layer takes the last width.
  The spec does not say what the constructor does with an empty list of widths; here it
  gives the output layer alone, from the input size.
\<close>

fun mk_hidden :: "(string \<Rightarrow> nat \<Rightarrow> 'v) \<Rightarrow> nat \<Rightarrow> nat \<Rightarrow> nat list \<Rightarrow> 'v linear list" where
  "mk_hidden rnd k i [] = []"
| "mk_hidden rnd k i (h # hs) = Linear rnd (hidden_name k) i h # mk_hidden rnd (Suc k) h hs"

definition Network :: "(string \<Rightarrow> nat \<Rightarrow> 'v) \<Rightarrow> nat \<Rightarrow> nat \<Rightarrow> nat list \<Rightarrow> 'v network" where
  "Network rnd input_size output_size hs =
     \<lparr>hidden_layers = mk_hidden rnd 0 input_size hs,
      output_layer = Linear rnd ''output'' (last (input_size # hs)) output_size,
      dropout = 1 / 2\<rparr>"

section \<open>State dicts\<close>

text \<open>
  \<open>model.state_dict()\<close> is an ordered dictionary from parameter name to tensor. The
  notebook prints its keys for three hidden layers: \<open>hidden_layers.0.weight\<close>,
  \<open>hidden_layers.0.bias\<close>, ..., \<open>output.weight\<close>, \<open>output.bias\<close>. The dropout
  module has no parameters.
\<close>

type_synonym 'v state_dict = "(string \<times> 'v tensor) list"

definition linear_items :: "string \<Rightarrow> 'v linear \<Rightarrow> 'v state_dict" where
  "linear_items prefix l = [(prefix @ ''.weight'', weight l), (prefix @ ''.bias'', bias l)]"

fun hidden_items :: "nat \<Rightarrow> 'v linear list \<Rightarrow> 'v state_dict" where
  "hidden_items i [] = []"
| "hidden_items i (l # ls) = linear_items (hidden_name i) l @ hidden_items (Suc i) ls"

definition state_dict :: "'v network \<Rightarrow> 'v state_dict" where
  "state_dict m = hidden_items 0 (hidden_layers m) @ linear_items ''output'' (output_layer m)"

text \<open>
  The names a network with \<open>n\<close> hidden layers is expected to have: a weight and a bias
  for each hidden layer, under the layer's position in the module list, then the weight
  and the bias of the output layer.
\<close>

definition param_names :: "nat \<Rightarrow> string list" where
  "param_names n =
     concat (map (\<lambda>j. [hidden_name j @ ''.weight'', hidden_name j @ ''.bias'']) [0..<n])
     @ [''output.weight'', ''output.bias'']"

subsection \<open>Loading a state dict\<close>

text \<open>
  \<open>model.load_state_dict(state_dict)\<close> with the default \<open>strict=True\<close>. Every
  parameter of the model whose name is in the state dict is compared by shape; a
  parameter of the same shape takes the value of the state dict, one of another shape is
  reported and left as it is. Names of the model absent from the state dict are missing
  keys, names of the state dict unknown to the model are unexpected keys. Any report makes
  the call raise; otherwise it answers \<open><All keys matched successfully>\<close> and the model
  holds the loaded values.
\<close>

definition load_param :: "'v state_dict \<Rightarrow> string \<Rightarrow> 'v tensor \<Rightarrow> 'v tensor" where
  "load_param sd k p =
     (case map_of sd k of
        Some t \<Rightarrow> if shape t = shape p then t else p
      | None \<Rightarrow> p)"

definition load_linear :: "'v state_dict \<Rightarrow> string \<Rightarrow> 'v linear \<Rightarrow> 'v linear" where
  "load_linear sd prefix l =
     l\<lparr>weight := load_param sd (prefix @ ''.weight'') (weight l),
       bias := load_param sd (prefix @ ''.bias'') (bias l)\<rparr>"

fun load_hidden :: "'v state_dict \<Rightarrow> nat \<Rightarrow> 'v linear list \<Rightarrow> 'v linear list" where
  "load_hidden sd i [] = []"
| "load_hidden sd i (l # ls) = load_linear sd (hidden_name i) l # load_hidden sd (Suc i) ls"

fun size_mismatches :: "'v state_dict \<Rightarrow> 'v state_dict \<Rightarrow> (string \<times> nat list \<times> nat list) list" where
  "size_mismatches sd [] = []"
| "size_mismatches sd ((k, p) # ps) =
     (case map_of sd k of
        Some t \<Rightarrow> if shape t \<noteq> shape p then [(k, shape t, shape p)] else []
      | None \<Rightarrow> [])
     @ size_mismatches sd ps"

definition missing_keys :: "'v state_dict \<Rightarrow> 'v state_dict \<Rightarrow> string list" where
  "missing_keys sd params = filter (\<lambda>k. map_of sd k = None) (map fst params)"

definition unexpected_keys :: "'v state_dict \<Rightarrow> 'v state_dict \<Rightarrow> string list" where
  "unexpected_keys sd params = filter (\<lambda>k. k \<notin> set (map fst params)) (map fst sd)"

definition load_state_dict :: "'v network \<Rightarrow> 'v state_dict \<Rightarrow> error + 'v network" where
  "load_state_dict model sd =
     (let params = state_dict model;
          missing = missing_keys sd params;
          unexpected = unexpected_keys sd params;
          mismatches = size_mismatches sd params
      in if missing = [] \<and> unexpected = [] \<and> mismatches = []
         then Inr (model\<lparr>hidden_layers := load_hidden sd 0 (hidden_layers model),
                          output_layer := load_linear sd ''output'' (output_layer model)\<rparr>)
         else Inl (LoadError missing unexpected mismatches))"

section \<open>Checkpoints\<close>

text \<open>
  The values a checkpoint dictionary holds, and the files \<open>torch.save\<close> writes and
  \<open>torch.load\<close> reads. An integer read from a file may be negative.
\<close>

datatype 'v pyval =
    PInt int
  | PIntList "int list"
  | PTensor "'v tensor"
  | PStateDict "'v state_dict"

type_synonym 'v pydict = "(string \<times> 'v pyval) list"

type_synonym 'v files = "string \<rightharpoonup> 'v pydict"

definition torch_save :: "'v pydict \<Rightarrow> string \<Rightarrow> 'v files \<Rightarrow> 'v files" where
  "torch_save obj path fs = fs(path \<mapsto> obj)"

definition torch_load :: "'v files \<Rightarrow> string \<Rightarrow> error + 'v pydict" where
  "torch_load fs path = (case fs path of None \<Rightarrow> Inl (FileNotFoundError path) | Some obj \<Rightarrow> Inr obj)"

text \<open>\<open>d[k]\<close> on a dictionary raises \<open>KeyError\<close> for an absent key.\<close>

definition getitem :: "'v pydict \<Rightarrow> string \<Rightarrow> error + 'v pyval" where
  "getitem d k = (case map_of d k of None \<Rightarrow> Inl (KeyError k) | Some v \<Rightarrow> Inr v)"

text \<open>
  The first save of the notebook stores the bare state dict:
  \<open>torch.save(model.state_dict(), 'checkpoint.pth')\<close>.
\<close>

definition bare_state_dict :: "'v network \<Rightarrow> 'v pydict" where
  "bare_state_dict model = map (\<lambda>(k, t). (k, PTensor t)) (state_dict model)"

text \<open>
  The checkpoint cell:
  \<^verbatim>\<open>
  checkpoint = {'input_size': 784,
                'output_size': 10,
                'hidden_layers': [each.out_features for each in model.hidden_layers],
                'state_dict': model.state_dict()}
  \<close>
\<close>

definition checkpoint :: "'v network \<Rightarrow> 'v pydict" where
  "checkpoint model =
     [(''input_size'', PInt 784),
      (''output_size'', PInt 10),
      (''hidden_layers'', PIntList (map (\<lambda>each. int (out_features each)) (hidden_layers model))),
      (''state_dict'', PStateDict (state_dict model))]"

text \<open>
  The constructor and \<open>load_state_dict\<close> called on values read from a dictionary:
  the sizes are integers, the widths a list of integers and the state dict a mapping
  from names to tensors. A value of another kind is answered with a type error. A
  linear layer cannot be created with a negative size, so the constructor raises on a
  negative input size, output size or width; otherwise the sizes are counts and the
  network is built from them. A dictionary with one unfit entry is answered with the
  error of that entry; with several unfit entries the kinds are looked at before the
  signs, from left to right.
\<close>

fun sizes_ok :: "'v pyval \<Rightarrow> 'v pyval \<Rightarrow> 'v pyval \<Rightarrow> bool" where
  "sizes_ok (PInt i) (PInt o') (PIntList hs) = (0 \<le> i \<and> 0 \<le> o' \<and> list_all (\<lambda>h. 0 \<le> h) hs)"
| "sizes_ok _ _ _ = False"

fun Network_call :: "(string \<Rightarrow> nat \<Rightarrow> 'v) \<Rightarrow> 'v pyval \<Rightarrow> 'v pyval \<Rightarrow> 'v pyval \<Rightarrow> error + 'v network" where
  "Network_call rnd (PInt i) (PInt o') (PIntList hs) =
     (if 0 \<le> i \<and> 0 \<le> o' \<and> list_all (\<lambda>h. 0 \<le> h) hs
      then Inr (Network rnd (nat i) (nat o') (map nat hs))
      else Inl NegativeDimension)"
| "Network_call rnd (PInt i) (PInt o') _ = Inl (TypeError ''hidden_layers'')"
| "Network_call rnd (PInt i) _ _ = Inl (TypeError ''output_size'')"
| "Network_call rnd _ _ _ = Inl (TypeError ''input_size'')"

fun load_state_dict_call :: "'v network \<Rightarrow> 'v pyval \<Rightarrow> error + 'v network" where
  "load_state_dict_call model (PStateDict sd) = load_state_dict model sd"
| "load_state_dict_call model _ = Inl (TypeError ''state_dict'')"

text \<open>
  \<^verbatim>\<open>
  def load_checkpoint(filepath):
      checkpoint = torch.load(filepath)
      model = fc_model.Network(checkpoint['input_size'],
                               checkpoint['output_size'],
                               checkpoint['hidden_layers'])
      model.load_state_dict(checkpoint['state_dict'])
      return model
  \<close>
  The three arguments are looked up from left to right before the constructor runs, and
  \<open>checkpoint['state_dict']\<close> is looked up after it.
\<close>

definition load_checkpoint :: "(string \<Rightarrow> nat \<Rightarrow> 'v) \<Rightarrow> 'v files \<Rightarrow> string \<Rightarrow> error + 'v network" where
  "load_checkpoint rnd fs filepath =
     (case torch_load fs filepath of Inl e \<Rightarrow> Inl e | Inr ckpt \<Rightarrow>
     (case getitem ckpt ''input_size'' of Inl e \<Rightarrow> Inl e | Inr a \<Rightarrow>
     (case getitem ckpt ''output_size'' of Inl e \<Rightarrow> Inl e | Inr b \<Rightarrow>
     (case getitem ckpt ''hidden_layers'' of Inl e \<Rightarrow> Inl e | Inr c \<Rightarrow>
     (case Network_call rnd a b c of Inl e \<Rightarrow> Inl e | Inr model \<Rightarrow>
     (case getitem ckpt ''state_dict'' of Inl e \<Rightarrow> Inl e | Inr sd \<Rightarrow>
        load_state_dict_call model sd))))))"

section \<open>Architectures and the forward pass\<close>

text \<open>
  A module of a network as the notebook prints it: a linear layer with its input and
  output features, the \<open>ReLU\<close> non-linearity, dropout with its probability. The
  forward pass is followed on sizes: a linear layer replaces the last dimension and
  refuses an input whose last dimension is not its \<open>in_features\<close>; the other two
  keep the size.
\<close>

datatype layer = LinearL nat nat | ReLU | Dropout real

fun layer_shape :: "layer \<Rightarrow> nat list \<Rightarrow> error + nat list" where
  "layer_shape (LinearL i o') s =
     (if s \<noteq> [] \<and> last s = i then Inr (butlast s @ [o']) else Inl (ShapeError s i))"
| "layer_shape ReLU s = Inr s"
| "layer_shape (Dropout p) s = Inr s"

fun forward_shape :: "layer list \<Rightarrow> nat list \<Rightarrow> error + nat list" where
  "forward_shape [] s = Inr s"
| "forward_shape (m # ms) s =
     (case layer_shape m s of Inl e \<Rightarrow> Inl e | Inr s' \<Rightarrow> forward_shape ms s')"

text \<open>
  The network of the training notebook:
  \<^verbatim>\<open>
  input_size = 784
  hidden_sizes = [128, 64]
  output_size = 10
  model = nn.Sequential(OrderedDict([
            ('fc1', nn.Linear(input_size, hidden_sizes[0])),
            ('relu1', nn.ReLU()),
            ('fc2', nn.Linear(hidden_sizes[0], hidden_sizes[1])),
            ('relu2', nn.ReLU()),
            ('logits', nn.Linear(hidden_sizes[1], output_size))]))
  \<close>
\<close>

definition input_size :: nat where
  "input_size = 784"

definition hidden_sizes :: "nat list" where
  "hidden_sizes = [128, 64]"

definition output_size :: nat where
  "output_size = 10"

definition model :: "(string \<times> layer) list" where
  "model =
     [(''fc1'', LinearL input_size (hidden_sizes ! 0)),
      (''relu1'', ReLU),
      (''fc2'', LinearL (hidden_sizes ! 0) (hidden_sizes ! 1)),
      (''relu2'', ReLU),
      (''logits'', LinearL (hidden_sizes ! 1) output_size)]"

text \<open>
  Modelled from the spec: the forward pass of \<open>fc_model.Network\<close>, which is not among
  the sources. The spec describes it as a stack of linear transforms, each with a
  non-linearity and dropout, and a final linear layer producing the class scores.
\<close>

definition network_layers :: "'v network \<Rightarrow> layer list" where
  "network_layers net =
     concat (map (\<lambda>l. [LinearL (in_features l) (out_features l), ReLU, Dropout (dropout net)])
               (hidden_layers net))
     @ [LinearL (in_features (output_layer net)) (out_features (output_layer net))]"

definition network_forward :: "'v network \<Rightarrow> nat list \<Rightarrow> error + nat list" where
  "network_forward net s = forward_shape (network_layers net) s"

section \<open>Training\<close>

text \<open>
  A batch of the data loader: the images tensor and one label for each image. A label
  is an integer; the data set gives the digits 0 to 9.
\<close>

record 'v batch =
  images :: "'v tensor"
  labels :: "int list"

text \<open>
  The values the library computes are parameters: \<open>'s\<close> is the state of the
  parameters, their gradients and the optimizer. What the notebook's own code decides
  (the order of the calls, the counters, the sizes it asks for) and when the library
  raises are written out.
\<close>

record ('s, 'v) torch =
  zero_grad :: "'s \<Rightarrow> 's"
  forward_vals :: "'s \<Rightarrow> 'v tensor \<Rightarrow> 'v list"
  loss_item :: "'v tensor \<Rightarrow> int list \<Rightarrow> real"
  loss_other :: "'v tensor \<Rightarrow> int list \<Rightarrow> error + real"
  backward :: "'s \<Rightarrow> 'v tensor \<Rightarrow> int list \<Rightarrow> 's"
  optimizer_step :: "'s \<Rightarrow> 's"
  uninit :: "nat \<Rightarrow> 'v"

text \<open>
  \<open>Tensor.resize_(*sizes)\<close> (here \<open>resize\<close>) gives the tensor the requested size in
  place. It does not compare element counts: the elements already stored are kept, in
  order, and positions beyond them are uninitialised memory, here the values of
  \<open>junk\<close>.
\<close>

definition resize :: "(nat \<Rightarrow> 'v) \<Rightarrow> nat list \<Rightarrow> 'v tensor \<Rightarrow> 'v tensor" where
  "resize junk new t =
     \<lparr>shape = new,
      vals = map (\<lambda>k. if k < length (vals t) then vals t ! k else junk k) [0..<prod_list new]\<rparr>"

definition model_forward :: "('s, 'v) torch \<Rightarrow> 's \<Rightarrow> 'v tensor \<Rightarrow> error + 'v tensor" where
  "model_forward L s x =
     (case forward_shape (map snd model) (shape x) of
        Inl e \<Rightarrow> Inl e
      | Inr s' \<Rightarrow> Inr \<lparr>shape = s', vals = forward_vals L s x\<rparr>)"

text \<open>
  \<open>nn.CrossEntropyLoss()\<close> applied to the scores and the labels. For a matrix of
  scores, \<open>n\<close> rows of \<open>c\<close> classes, it wants \<open>n\<close> labels and raises otherwise; then
  every label has to be a class index from \<open>0\<close> to \<open>c - 1\<close> or the value \<open>-100\<close>,
  which marks a sample to be ignored, and the first label that is neither makes it
  raise. Scores that are not a matrix do not arise in the notebook, where every batch
  is resized to two dimensions before the forward pass; what the loss function does with
  them is left to the parameter \<open>loss_other\<close>.
\<close>

definition bad_target :: "nat \<Rightarrow> int list \<Rightarrow> int option" where
  "bad_target c ls = find (\<lambda>t. \<not> (t = - 100 \<or> (0 \<le> t \<and> t < int c))) ls"

definition criterion :: "('s, 'v) torch \<Rightarrow> 'v tensor \<Rightarrow> int list \<Rightarrow> error + real" where
  "criterion L out ls =
     (case shape out of
        [n, c] \<Rightarrow>
          (if n \<noteq> length ls then Inl (BatchSizeError n (length ls))
           else (case bad_target c ls of
                   Some t \<Rightarrow> Inl (TargetOutOfBounds t)
                 | None \<Rightarrow> Inr (loss_item L out ls)))
      | _ \<Rightarrow> loss_other L out ls)"

text \<open>
  What a run does is recorded as a trace of events: a library call or a \<open>print\<close>
  with the epoch, the number of epochs and the value printed (\<open>PrintEval\<close> for the
  lines of \<open>fc_model.train\<close>, which print a training loss, a test loss and a test
  accuracy).
\<close>

datatype event =
    ZeroGrad
  | Forward "nat list"
  | Loss real
  | Backward
  | Step
  | Print nat nat real
  | PrintEval nat nat real real real

text \<open>
  A session holds the state of the library and the trace so far. Each call of the
  notebook to the library is a function on the session: it does to the parameters what
  the library does and appends its event, so the trace is the order in which the calls
  were made. The forward pass and the loss leave the parameters as they are and may
  raise.
\<close>

record 's session =
  params :: 's
  trace :: "event list"

definition call_zero_grad :: "('s, 'v) torch \<Rightarrow> ('s, 'z) session_scheme \<Rightarrow> ('s, 'z) session_scheme" where
  "call_zero_grad L r = r\<lparr>params := zero_grad L (params r), trace := trace r @ [ZeroGrad]\<rparr>"

definition call_forward ::
  "('s, 'v) torch \<Rightarrow> 'v tensor \<Rightarrow> ('s, 'z) session_scheme
   \<Rightarrow> error + 'v tensor \<times> ('s, 'z) session_scheme" where
  "call_forward L x r =
     (case model_forward L (params r) x of
        Inl e \<Rightarrow> Inl e
      | Inr out \<Rightarrow> Inr (out, r\<lparr>trace := trace r @ [Forward (shape x)]\<rparr>))"

definition call_criterion ::
  "('s, 'v) torch \<Rightarrow> 'v tensor \<Rightarrow> int list \<Rightarrow> ('s, 'z) session_scheme
   \<Rightarrow> error + real \<times> ('s, 'z) session_scheme" where
  "call_criterion L out ls r =
     (case criterion L out ls of
        Inl e \<Rightarrow> Inl e
      | Inr loss \<Rightarrow> Inr (loss, r\<lparr>trace := trace r @ [Loss loss]\<rparr>))"

definition call_backward ::
  "('s, 'v) torch \<Rightarrow> 'v tensor \<Rightarrow> int list \<Rightarrow> ('s, 'z) session_scheme \<Rightarrow> ('s, 'z) session_scheme" where
  "call_backward L out ls r =
     r\<lparr>params := backward L (params r) out ls, trace := trace r @ [Backward]\<rparr>"

definition call_step :: "('s, 'v) torch \<Rightarrow> ('s, 'z) session_scheme \<Rightarrow> ('s, 'z) session_scheme" where
  "call_step L r = r\<lparr>params := optimizer_step L (params r), trace := trace r @ [Step]\<rparr>"

definition call_print :: "nat \<Rightarrow> nat \<Rightarrow> real \<Rightarrow> ('s, 'z) session_scheme \<Rightarrow> ('s, 'z) session_scheme" where
  "call_print e n v r = r\<lparr>trace := trace r @ [Print e n v]\<rparr>"

text \<open>
  The single training step:
  \<^verbatim>\<open>
  print('Initial weights - ', model.fc1.weight)
  images, labels = next(iter(trainloader))
  images.resize_(64, 784)
  optimizer.zero_grad()
  output = model.forward(images)
  loss = criterion(output, labels)
  loss.backward()
  print('Gradient -', model.fc1.weight.grad)
  optimizer.step()
  \<close>
  The two prints show library values and are not part of the trace. The backward pass
  is that of the loss just computed, which is determined by the scores and the labels.
\<close>

definition single_step :: "('s, 'v) torch \<Rightarrow> 'v batch list \<Rightarrow> 's \<Rightarrow> error + 's session" where
  "single_step L trainloader s =
     (case trainloader of
        [] \<Rightarrow> Inl StopIteration
      | b # _ \<Rightarrow>
         (let imgs = resize (uninit L) [64, 784] (images b);
              r1 = call_zero_grad L \<lparr>params = s, trace = []\<rparr>
          in (case call_forward L imgs r1 of
                Inl e \<Rightarrow> Inl e
              | Inr (out, r2) \<Rightarrow>
                 (case call_criterion L out (labels b) r2 of
                    Inl e \<Rightarrow> Inl e
                  | Inr (loss, r3) \<Rightarrow>
                     Inr (call_step L (call_backward L out (labels b) r3))))))"

text \<open>
  The training loop:
  \<^verbatim>\<open>
  epochs = 3
  print_every = 40
  steps = 0
  for e in range(epochs):
      running_loss = 0
      for images, labels in iter(trainloader):
          steps += 1
          images.resize_(images.size()[0], 784)
          optimizer.zero_grad()
          output = model.forward(images)
          loss = criterion(output, labels)
          loss.backward()
          optimizer.step()
          running_loss += loss.item()
          if steps % print_every == 0:
              print("Epoch: {}/{}... ".format(e+1, epochs),
                    "Loss: {:.4f}".format(running_loss/print_every))
              running_loss = 0
  \<close>
  \<open>epochs\<close> and \<open>print_every\<close> are arguments of the model, so that the properties
  hold for any setting; the notebook's values are \<open>3\<close> and \<open>40\<close>. The loader is a
  function: the batches that the \<open>e\<close>-th pass over \<open>trainloader\<close> yields. A run is a
  session with the two counters of the loop.
\<close>

record 's run = "'s session" +
  steps :: nat
  running_loss :: real

definition train_batch ::
  "('s, 'v) torch \<Rightarrow> nat \<Rightarrow> nat \<Rightarrow> nat \<Rightarrow> 'v batch \<Rightarrow> 's run \<Rightarrow> error + 's run" where
  "train_batch L epochs print_every e b r =
     (let r0 = r\<lparr>steps := steps r + 1\<rparr>
      in (case shape (images b) of
            [] \<Rightarrow> Inl IndexError
          | n # _ \<Rightarrow>
             (let imgs = resize (uninit L) [n, 784] (images b);
                  r1 = call_zero_grad L r0
              in (case call_forward L imgs r1 of
                    Inl err \<Rightarrow> Inl err
                  | Inr (out, r2) \<Rightarrow>
                     (case call_criterion L out (labels b) r2 of
                        Inl err \<Rightarrow> Inl err
                      | Inr (loss, r3) \<Rightarrow>
                         (let r4 = call_step L (call_backward L out (labels b) r3);
                              r5 = r4\<lparr>running_loss := running_loss r4 + loss\<rparr>
                          in if print_every = 0 then Inl ZeroDivisionError
                             else if steps r5 mod print_every = 0
                             then Inr ((call_print (e + 1) epochs
                                          (running_loss r5 / real print_every) r5)
                                       \<lparr>running_loss := 0\<rparr>)
                             else Inr r5))))))"

fun train_batches ::
  "('s, 'v) torch \<Rightarrow> nat \<Rightarrow> nat \<Rightarrow> nat \<Rightarrow> 'v batch list \<Rightarrow> 's run \<Rightarrow> error + 's run" where
  "train_batches L epochs print_every e [] r = Inr r"
| "train_batches L epochs print_every e (b # bs) r =
     (case train_batch L epochs print_every e b r of
        Inl err \<Rightarrow> Inl err
      | Inr r' \<Rightarrow> train_batches L epochs print_every e bs r')"

definition train_epoch ::
  "('s, 'v) torch \<Rightarrow> nat \<Rightarrow> nat \<Rightarrow> (nat \<Rightarrow> 'v batch list) \<Rightarrow> nat \<Rightarrow> 's run \<Rightarrow> error + 's run" where
  "train_epoch L epochs print_every trainloader e r =
     train_batches L epochs print_every e (trainloader e) (r\<lparr>running_loss := 0\<rparr>)"

fun train_epochs ::
  "('s, 'v) torch \<Rightarrow> nat \<Rightarrow> nat \<Rightarrow> (nat \<Rightarrow> 'v batch list) \<Rightarrow> nat list \<Rightarrow> 's run \<Rightarrow> error + 's run" where
  "train_epochs L epochs print_every trainloader [] r = Inr r"
| "train_epochs L epochs print_every trainloader (e # es) r =
     (case train_epoch L epochs print_every trainloader e r of
        Inl err \<Rightarrow> Inl err
      | Inr r' \<Rightarrow> train_epochs L epochs print_every trainloader es r')"

definition train ::
  "('s, 'v) torch \<Rightarrow> nat \<Rightarrow> nat \<Rightarrow> (nat \<Rightarrow> 'v batch list) \<Rightarrow> 's \<Rightarrow> error + 's run" where
  "train L epochs print_every trainloader s0 =
     train_epochs L epochs print_every trainloader [0..<epochs]
       \<lparr>params = s0, trace = [], steps = 0, running_loss = 0\<rparr>"

text \<open>
  A batch as the data loader yields it from the data set of digits: the first dimension
  of the images is the number of labels, and every label is a digit.
\<close>

definition wf_batch :: "'v batch \<Rightarrow> bool" where
  "wf_batch b \<longleftrightarrow>
     (case shape (images b) of [] \<Rightarrow> False | n # _ \<Rightarrow> n = length (labels b))
     \<and> list_all (\<lambda>t. 0 \<le> t \<and> t < 10) (labels b)"

text \<open>Reading a trace: the prints, the evaluation lines, the losses.\<close>

fun is_print :: "event \<Rightarrow> bool" where
  "is_print (Print e n v) = True"
| "is_print (PrintEval e n v t a) = True"
| "is_print _ = False"

fun is_eval :: "event \<Rightarrow> bool" where
  "is_eval (PrintEval e n v t a) = True"
| "is_eval _ = False"

fun losses :: "event list \<Rightarrow> real list" where
  "losses [] = []"
| "losses (Loss l # evs) = l # losses evs"
| "losses (ev # evs) = losses evs"

text \<open>
  For each optimizer step of a trace, whether a print of the loop follows it at once.
\<close>

fun print_flags :: "event list \<Rightarrow> bool list" where
  "print_flags [] = []"
| "print_flags (Step # Print e n v # evs) = True # print_flags evs"
| "print_flags (Step # evs) = False # print_flags evs"
| "print_flags (ev # evs) = print_flags evs"

text \<open>
  What one pass of the loop body is expected to do with a batch of \<open>n\<close> images, in
  terms of the library alone: the gradients are zeroed, the forward pass runs on the
  resized images with the parameters so obtained, the loss is that of its scores and the
  labels, the backward pass is that of this loss, and the optimizer steps on its result.
\<close>

definition step_loss :: "('s, 'v) torch \<Rightarrow> 's \<Rightarrow> nat \<Rightarrow> 'v batch \<Rightarrow> real" where
  "step_loss L s n b =
     (let imgs = resize (uninit L) [n, 784] (images b)
      in loss_item L \<lparr>shape = [n, 10], vals = forward_vals L (zero_grad L s) imgs\<rparr> (labels b))"

definition step_params :: "('s, 'v) torch \<Rightarrow> 's \<Rightarrow> nat \<Rightarrow> 'v batch \<Rightarrow> 's" where
  "step_params L s n b =
     (let imgs = resize (uninit L) [n, 784] (images b);
          s1 = zero_grad L s
      in optimizer_step L
           (backward L s1 \<lparr>shape = [n, 10], vals = forward_vals L s1 imgs\<rparr> (labels b)))"

definition batch_events :: "'v batch \<Rightarrow> real \<Rightarrow> event list" where
  "batch_events b l = [ZeroGrad, Forward [length (labels b), 784], Loss l, Backward, Step]"

text \<open>
  The same for a list of batches, each on the parameters the one before it left: the
  parameters at the end and the events in order.
\<close>

fun run_params :: "('s, 'v) torch \<Rightarrow> 's \<Rightarrow> 'v batch list \<Rightarrow> 's" where
  "run_params L s [] = s"
| "run_params L s (b # bs) = run_params L (step_params L s (length (labels b)) b) bs"

fun run_events :: "('s, 'v) torch \<Rightarrow> 's \<Rightarrow> 'v batch list \<Rightarrow> event list" where
  "run_events L s [] = []"
| "run_events L s (b # bs) =
     batch_events b (step_loss L s (length (labels b)) b)
     @ run_events L (step_params L s (length (labels b)) b) bs"

definition all_batches :: "(nat \<Rightarrow> 'v batch list) \<Rightarrow> nat \<Rightarrow> 'v batch list" where
  "all_batches trainloader epochs = concat (map trainloader [0..<epochs])"

text \<open>
  Libraries for the examples. The first keeps a log of the calls that change the
  parameters; its forward pass gives the length of the log and its loss is that number,
  so a loss shows when its forward pass ran. The second computes nothing and gives every
  batch the same loss.
\<close>

definition log_torch :: "(string list, int) torch" where
  "log_torch =
     \<lparr>zero_grad = (\<lambda>s. s @ [''zero_grad'']),
      forward_vals = (\<lambda>s x. [int (length s)]),
      loss_item = (\<lambda>out ls. real_of_int (sum_list (vals out))),
      loss_other = (\<lambda>out ls. Inl (ShapeError (shape out) 0)),
      backward = (\<lambda>s out ls. s @ [''backward'']),
      optimizer_step = (\<lambda>s. s @ [''step'']),
      uninit = (\<lambda>k. 0)\<rparr>"


definition demo_batch :: "nat \<Rightarrow> nat \<Rightarrow> int batch" where
  "demo_batch n k =
     \<lparr>images = \<lparr>shape = [n, k], vals = replicate (n * k) 0\<rparr>, labels = replicate n 0\<rparr>"

text \<open>A loader that yields a full batch and a final partial batch in each epoch.\<close>

definition demo_loader :: "nat \<Rightarrow> int batch list" where
  "demo_loader e = [demo_batch 64 784, demo_batch 32 784]"

section \<open>The training function of fc_model\<close>

text \<open>
  Modelled from the spec: \<open>fc_model.train(model, trainloader, testloader, criterion,
  optimizer, epochs)\<close> and the evaluation it runs; the module \<open>fc_model\<close> is not among
  the sources. The spec describes a training loop that iterates batches, invokes the
  automatic differentiation pass and the optimizer step for each batch, tracks the
  running loss, and periodically evaluates loss and accuracy on a held-out set. The
  output of the call in the notebook has one line for each evaluation,
  \<open>Epoch: 1/2..  Training Loss: 1.671..  Test Loss: 0.896..  Test Accuracy: 0.675\<close>,
  23 lines in each of two epochs of 938 batches, that is one every 40 steps, and the
  first line of the second epoch shows a full training loss: the running loss is not
  reset when an epoch starts. The library is a parameter here as well: the loss and
  the accuracy of the model on a batch, and the effect of one backward pass and
  optimizer step.
\<close>

record ('s, 'v) learner =
  batch_loss :: "'s \<Rightarrow> 'v batch \<Rightarrow> real"
  batch_accuracy :: "'s \<Rightarrow> 'v batch \<Rightarrow> real"
  grad_step :: "'s \<Rightarrow> 'v batch \<Rightarrow> 's"

definition validation :: "('s, 'v) learner \<Rightarrow> 's \<Rightarrow> 'v batch list \<Rightarrow> real \<times> real" where
  "validation L s testloader =
     (sum_list (map (batch_loss L s) testloader), sum_list (map (batch_accuracy L s) testloader))"

definition fc_train_batch ::
  "('s, 'v) learner \<Rightarrow> nat \<Rightarrow> nat \<Rightarrow> 'v batch list \<Rightarrow> nat \<Rightarrow> 'v batch \<Rightarrow> 's run \<Rightarrow> error + 's run" where
  "fc_train_batch L epochs print_every testloader e b r =
     (let steps' = steps r + 1;
          loss = batch_loss L (params r) b;
          s' = grad_step L (params r) b;
          running = running_loss r + loss;
          tr = trace r @ [Loss loss, Backward, Step]
      in if print_every = 0 then Inl ZeroDivisionError
         else if steps' mod print_every = 0
         then (let (test_loss, accuracy) = validation L s' testloader
               in Inr \<lparr>params = s',
                       trace = tr @ [PrintEval (e + 1) epochs (running / real print_every)
                                       (test_loss / real (length testloader))
                                       (accuracy / real (length testloader))],
                       steps = steps', running_loss = 0\<rparr>)
         else Inr \<lparr>params = s', trace = tr, steps = steps', running_loss = running\<rparr>)"

fun fc_train_batches ::
  "('s, 'v) learner \<Rightarrow> nat \<Rightarrow> nat \<Rightarrow> 'v batch list \<Rightarrow> nat \<Rightarrow> 'v batch list \<Rightarrow> 's run \<Rightarrow> error + 's run" where
  "fc_train_batches L epochs print_every testloader e [] r = Inr r"
| "fc_train_batches L epochs print_every testloader e (b # bs) r =
     (case fc_train_batch L epochs print_every testloader e b r of
        Inl err \<Rightarrow> Inl err
      | Inr r' \<Rightarrow> fc_train_batches L epochs print_every testloader e bs r')"

fun fc_train_epochs ::
  "('s, 'v) learner \<Rightarrow> nat \<Rightarrow> nat \<Rightarrow> (nat \<Rightarrow> 'v batch list) \<Rightarrow> 'v batch list \<Rightarrow> nat list \<Rightarrow> 's run
   \<Rightarrow> error + 's run" where
  "fc_train_epochs L epochs print_every trainloader testloader [] r = Inr r"
| "fc_train_epochs L epochs print_every trainloader testloader (e # es) r =
     (case fc_train_batches L epochs print_every testloader e (trainloader e) r of
        Inl err \<Rightarrow> Inl err
      | Inr r' \<Rightarrow> fc_train_epochs L epochs print_every trainloader testloader es r')"

definition fc_train ::
  "('s, 'v) learner \<Rightarrow> nat \<Rightarrow> nat \<Rightarrow> (nat \<Rightarrow> 'v batch list) \<Rightarrow> 'v batch list \<Rightarrow> 's \<Rightarrow> error + 's run" where
  "fc_train L epochs print_every trainloader testloader s0 =
     fc_train_epochs L epochs print_every trainloader testloader [0..<epochs]
       \<lparr>params = s0, trace = [], steps = 0, running_loss = 0\<rparr>"

text \<open>A learner with constant loss and accuracy, for the examples.\<close>

definition demo_learner :: "(unit, int) learner" where
  "demo_learner = \<lparr>batch_loss = (\<lambda>s b. 1), batch_accuracy = (\<lambda>s b. 1 / 2), grad_step = (\<lambda>s b. s)\<rparr>"

section \<open>Well-formed networks\<close>

text \<open>
  What a network built by the constructor keeps under training: each weight has size
  \<open>[out_features, in_features]\<close>, each bias size \<open>[out_features]\<close>, and each layer
  takes as many features as the layer before it gives. The sizes a network declares are
  its input size, the widths of its hidden layers and its output size.
\<close>

definition wf_linear :: "'v linear \<Rightarrow> bool" where
  "wf_linear l \<longleftrightarrow>
     shape (weight l) = [out_features l, in_features l] \<and> shape (bias l) = [out_features l]"

fun wf_chain :: "nat \<Rightarrow> 'v linear list \<Rightarrow> bool" where
  "wf_chain i [] = True"
| "wf_chain i (l # ls) = (in_features l = i \<and> wf_linear l \<and> wf_chain (out_features l) ls)"

definition net_input_size :: "'v network \<Rightarrow> nat" where
  "net_input_size m = in_features (hd (hidden_layers m @ [output_layer m]))"

definition net_output_size :: "'v network \<Rightarrow> nat" where
  "net_output_size m = out_features (output_layer m)"

definition hidden_widths :: "'v network \<Rightarrow> nat list" where
  "hidden_widths m = map out_features (hidden_layers m)"

definition widths :: "'v network \<Rightarrow> nat list" where
  "widths m = net_input_size m # hidden_widths m @ [net_output_size m]"

definition wf_network :: "'v network \<Rightarrow> bool" where
  "wf_network m \<longleftrightarrow> wf_chain (net_input_size m) (hidden_layers m @ [output_layer m])"

text \<open>
  The tensors of two state dicts that stand at the same position and differ in shape, as
  \<open>(name, shape in the checkpoint, shape in the model)\<close>.
\<close>

definition incompatible ::
  "'v state_dict \<Rightarrow> 'v state_dict \<Rightarrow> (string \<times> nat list \<times> nat list) list" where
  "incompatible sd ps =
     map (\<lambda>((k, t), (k', p)). (k, shape t, shape p))
       (filter (\<lambda>((k, t), (k', p)). shape t \<noteq> shape p) (zip sd ps))"

text \<open>Two layers that declare the same numbers of features.\<close>

definition same_sizes :: "'v linear \<Rightarrow> 'v linear \<Rightarrow> bool" where
  "same_sizes l c \<longleftrightarrow> in_features l = in_features c \<and> out_features l = out_features c"

text \<open>The entries that one layer contributes to the listing of incompatible tensors.\<close>

definition layer_mismatch :: "string \<Rightarrow> 'v linear \<Rightarrow> 'v linear \<Rightarrow> (string \<times> nat list \<times> nat list) list" where
  "layer_mismatch k c l =
     (if shape (weight c) \<noteq> shape (weight l)
      then [(k @ ''.weight'', shape (weight c), shape (weight l))] else [])
     @ (if shape (bias c) \<noteq> shape (bias l)
        then [(k @ ''.bias'', shape (bias c), shape (bias l))] else [])"

text \<open>
  The keys \<open>load_checkpoint\<close> reads, in the order in which it reads them; the first of
  them that a dictionary lacks; and a dictionary that holds the three architecture
  entries with values the constructor accepts (integers for the two sizes, a list of
  integers for the widths, none of them negative).
\<close>

definition checkpoint_keys :: "string list" where
  "checkpoint_keys = [''input_size'', ''output_size'', ''hidden_layers'', ''state_dict'']"

definition first_missing :: "'v pydict \<Rightarrow> string option" where
  "first_missing d = find (\<lambda>k. map_of d k = None) checkpoint_keys"

definition accepted_entries :: "'v pydict \<Rightarrow> bool" where
  "accepted_entries d =
     (case map_of d ''input_size'' of None \<Rightarrow> False | Some a \<Rightarrow>
     (case map_of d ''output_size'' of None \<Rightarrow> False | Some b \<Rightarrow>
     (case map_of d ''hidden_layers'' of None \<Rightarrow> False | Some c \<Rightarrow> sizes_ok a b c)))"

text \<open>Concrete parameter values and an empty disk, for the examples.\<close>

definition zero_init :: "string \<Rightarrow> nat \<Rightarrow> int" where
  "zero_init name k = 0"

definition one_init :: "string \<Rightarrow> nat \<Rightarrow> int" where
  "one_init name k = 1"

definition no_files :: "int files" where
  "no_files = Map.empty"

section \<open>Parameter names are distinct\<close>

lemma digit_cases:
  "k < 10 \<Longrightarrow> k = 0 \<or> k = 1 \<or> k = 2 \<or> k = 3 \<or> k = 4 \<or> k = 5 \<or> k = 6 \<or> k = 7 \<or> k = 8 \<or> k = (9::nat)"
  by arith

lemma digit_char_inj: "a < 10 \<Longrightarrow> b < 10 \<Longrightarrow> digit_char a = digit_char b \<Longrightarrow> a = b"
  by (drule digit_cases [of a], drule digit_cases [of b]) (auto simp: digit_char_def)

lemma str_nat_small: "n < 10 \<Longrightarrow> str_nat n = [digit_char n]"
  by (subst str_nat.simps) simp

lemma str_nat_large: "\<not> n < 10 \<Longrightarrow> str_nat n = str_nat (n div 10) @ [digit_char (n mod 10)]"
  by (subst str_nat.simps) simp

lemma str_nat_not_Nil: "str_nat n \<noteq> []"
  by (subst str_nat.simps) simp

lemma str_nat_inj: "str_nat n = str_nat m \<Longrightarrow> n = m"
proof (induction n arbitrary: m rule: str_nat.induct)
  case (1 n)
  show ?case
  proof (cases "n < 10")
    case True
    note n = str_nat_small [OF True]
    show ?thesis
    proof (cases "m < 10")
      case m: True
      from "1.prems" n str_nat_small [OF m] have "digit_char n = digit_char m" by simp
      with True m show ?thesis by (rule digit_char_inj)
    next
      case False
      from "1.prems" n str_nat_large [OF False] have "str_nat (m div 10) = []" by simp
      then show ?thesis by (simp add: str_nat_not_Nil)
    qed
  next
    case False
    note n = str_nat_large [OF False]
    show ?thesis
    proof (cases "m < 10")
      case True
      from "1.prems" n str_nat_small [OF True] have "str_nat (n div 10) = []" by simp
      then show ?thesis by (simp add: str_nat_not_Nil)
    next
      case m: False
      from "1.prems" n str_nat_large [OF m] have e: "str_nat (n div 10) = str_nat (m div 10)"
        and d: "digit_char (n mod 10) = digit_char (m mod 10)" by simp_all
      from "1.IH" [OF False e] have "n div 10 = m div 10" .
      moreover have "n mod 10 = m mod 10" by (rule digit_char_inj [OF _ _ d]) simp_all
      ultimately show ?thesis by (metis div_mult_mod_eq)
    qed
  qed
qed

lemma hidden_name_inj [simp]: "(hidden_name i = hidden_name j) = (i = j)"
  by (auto simp: hidden_name_def dest: str_nat_inj)

lemma weight_key_inj [simp]:
  "(hidden_name i @ ''.weight'' = hidden_name j @ ''.weight'') = (i = j)"
  by (auto simp: hidden_name_def dest: str_nat_inj)

lemma bias_key_inj [simp]:
  "(hidden_name i @ ''.bias'' = hidden_name j @ ''.bias'') = (i = j)"
  by (auto simp: hidden_name_def dest: str_nat_inj)

lemma weight_key_not_bias [simp]:
  "hidden_name i @ ''.weight'' \<noteq> hidden_name j @ ''.bias''"
proof
  assume "hidden_name i @ ''.weight'' = hidden_name j @ ''.bias''"
  then have "last (hidden_name i @ ''.weight'') = last (hidden_name j @ ''.bias'')" by simp
  then show False by simp
qed

lemma bias_key_not_weight [simp]:
  "hidden_name i @ ''.bias'' \<noteq> hidden_name j @ ''.weight''"
  using weight_key_not_bias [of j i] by metis

lemma hidden_key_not_output [simp]:
  "hidden_name i @ ''.weight'' \<noteq> ''output.weight''"
  "hidden_name i @ ''.weight'' \<noteq> ''output.bias''"
  "hidden_name i @ ''.bias'' \<noteq> ''output.weight''"
  "hidden_name i @ ''.bias'' \<noteq> ''output.bias''"
  "''output.weight'' \<noteq> hidden_name i @ ''.weight''"
  "''output.bias'' \<noteq> hidden_name i @ ''.weight''"
  "''output.weight'' \<noteq> hidden_name i @ ''.bias''"
  "''output.bias'' \<noteq> hidden_name i @ ''.bias''"
  by (simp_all add: hidden_name_def)

text \<open>
  The names of the parameters of a network with \<open>n\<close> hidden layers, in the order of
  the state dict.
\<close>

lemma fst_hidden_items:
  "map fst (hidden_items i ls) =
   concat (map (\<lambda>j. [hidden_name j @ ''.weight'', hidden_name j @ ''.bias'']) [i..<i + length ls])"
proof (induction ls arbitrary: i)
  case Nil
  show ?case by simp
next
  case (Cons l ls)
  let ?f = "\<lambda>j. [hidden_name j @ ''.weight'', hidden_name j @ ''.bias'']"
  have len: "i + length (l # ls) = Suc i + length ls" by simp
  have upt: "[i..<i + length (l # ls)] = i # [Suc i..<Suc i + length ls]"
    unfolding len by (rule upt_conv_Cons) simp
  have "map fst (hidden_items i (l # ls)) = ?f i @ map fst (hidden_items (Suc i) ls)"
    by (simp add: linear_items_def)
  also have "\<dots> = ?f i @ concat (map ?f [Suc i..<Suc i + length ls])"
    by (simp only: Cons.IH)
  also have "\<dots> = concat (map ?f (i # [Suc i..<Suc i + length ls]))"
    by simp
  also have "\<dots> = concat (map ?f [i..<i + length (l # ls)])"
    by (simp only: upt)
  finally show ?case .
qed

lemma fst_state_dict: "map fst (state_dict m) = param_names (length (hidden_layers m))"
  using fst_hidden_items [of 0 "hidden_layers m"]
  by (simp add: state_dict_def param_names_def linear_items_def)

lemma set_hidden_names:
  "set (concat (map (\<lambda>j. [hidden_name j @ ''.weight'', hidden_name j @ ''.bias'']) [i..<n])) =
   (\<Union>j\<in>{i..<n}. {hidden_name j @ ''.weight'', hidden_name j @ ''.bias''})"
  by auto

lemma distinct_hidden_names:
  "distinct (concat (map (\<lambda>j. [hidden_name j @ ''.weight'', hidden_name j @ ''.bias'']) [0..<n]))"
proof (induction n)
  case 0
  show ?case by simp
next
  case (Suc n)
  then show ?case by (auto simp: set_hidden_names)
qed

lemma distinct_param_names: "distinct (param_names n)"
  using distinct_hidden_names [of n] by (auto simp: param_names_def)

lemma length_hidden_names:
  "length (concat (map (\<lambda>j. [hidden_name j @ ''.weight'', hidden_name j @ ''.bias'']) [0..<n])) = 2 * n"
  by (induction n) simp_all

lemma length_param_names: "length (param_names n) = 2 * n + 2"
  unfolding param_names_def length_append length_hidden_names by simp

lemma distinct_state_dict: "distinct (map fst (state_dict m))"
  by (simp add: fst_state_dict distinct_param_names)

section \<open>Looking parameters up in a state dict\<close>

lemma map_of_hidden_items_weight:
  "map_of (hidden_items i ls @ rest) (hidden_name j @ ''.weight'') =
   (if i \<le> j \<and> j < i + length ls then Some (weight (ls ! (j - i)))
    else map_of rest (hidden_name j @ ''.weight''))"
proof (induction ls arbitrary: i)
  case Nil
  show ?case by auto
next
  case (Cons l ls)
  show ?case
  proof (cases "j = i")
    case True
    then show ?thesis by (simp add: linear_items_def del: map_of_append)
  next
    case False
    have "j - i = Suc (j - Suc i)" if "i < j" using that by simp
    then show ?thesis using False Cons.IH [of "Suc i"]
      by (auto simp: linear_items_def simp del: map_of_append)
  qed
qed

lemma map_of_hidden_items_bias:
  "map_of (hidden_items i ls @ rest) (hidden_name j @ ''.bias'') =
   (if i \<le> j \<and> j < i + length ls then Some (bias (ls ! (j - i)))
    else map_of rest (hidden_name j @ ''.bias''))"
proof (induction ls arbitrary: i)
  case Nil
  show ?case by auto
next
  case (Cons l ls)
  show ?case
  proof (cases "j = i")
    case True
    then show ?thesis by (simp add: linear_items_def del: map_of_append)
  next
    case False
    have "j - i = Suc (j - Suc i)" if "i < j" using that by simp
    then show ?thesis using False Cons.IH [of "Suc i"]
      by (auto simp: linear_items_def simp del: map_of_append)
  qed
qed

lemma map_of_hidden_items_output:
  "map_of (hidden_items i ls @ rest) ''output.weight'' = map_of rest ''output.weight''"
  "map_of (hidden_items i ls @ rest) ''output.bias'' = map_of rest ''output.bias''"
  by (induction ls arbitrary: i) (simp_all add: linear_items_def del: map_of_append)

lemma state_dict_weight:
  "j < length (hidden_layers m) \<Longrightarrow>
   map_of (state_dict m) (hidden_name j @ ''.weight'') = Some (weight (hidden_layers m ! j))"
  by (simp add: state_dict_def map_of_hidden_items_weight del: map_of_append)

lemma state_dict_bias:
  "j < length (hidden_layers m) \<Longrightarrow>
   map_of (state_dict m) (hidden_name j @ ''.bias'') = Some (bias (hidden_layers m ! j))"
  by (simp add: state_dict_def map_of_hidden_items_bias del: map_of_append)

lemma state_dict_output:
  "map_of (state_dict m) ''output.weight'' = Some (weight (output_layer m))"
  "map_of (state_dict m) ''output.bias'' = Some (bias (output_layer m))"
  by (simp_all add: state_dict_def map_of_hidden_items_output linear_items_def del: map_of_append)

lemma length_state_dict: "length (state_dict m) = 2 * length (hidden_layers m) + 2"
  using length_param_names [of "length (hidden_layers m)"] fst_state_dict [of m]
  by (metis length_map)

section \<open>Keys reported by load_state_dict\<close>

lemma missing_keys_Nil_iff:
  "missing_keys sd ps = [] \<longleftrightarrow> set (map fst ps) \<subseteq> set (map fst sd)"
  by (auto simp: missing_keys_def filter_empty_conv map_of_eq_None_iff)

lemma unexpected_keys_Nil_iff:
  "unexpected_keys sd ps = [] \<longleftrightarrow> set (map fst sd) \<subseteq> set (map fst ps)"
  by (auto simp: unexpected_keys_def filter_empty_conv)

lemma load_state_dict_keys:
  assumes "load_state_dict m sd = Inr m'"
  shows "set (map fst sd) = set (param_names (length (hidden_layers m)))"
proof -
  from assms have "missing_keys sd (state_dict m) = []" "unexpected_keys sd (state_dict m) = []"
    by (auto simp: load_state_dict_def Let_def split: if_splits)
  then show ?thesis
    unfolding missing_keys_Nil_iff unexpected_keys_Nil_iff fst_state_dict by blast
qed

lemma length_load_hidden [simp]: "length (load_hidden sd i ls) = length ls"
  by (induction ls arbitrary: i) simp_all

lemma load_state_dict_depth:
  "load_state_dict m sd = Inr m' \<Longrightarrow> length (hidden_layers m') = length (hidden_layers m)"
  by (auto simp: load_state_dict_def Let_def split: if_splits)

lemma shape_init_tensor [simp]: "shape (init_tensor rnd name s) = s"
  by (simp add: init_tensor_def)

section \<open>Networks of the constructor are well formed\<close>

lemma wf_linear_Linear [simp]: "wf_linear (Linear rnd name i n)"
  by (simp add: wf_linear_def Linear_def)

lemma in_features_Linear [simp]: "in_features (Linear rnd name i n) = i"
  by (simp add: Linear_def)

lemma out_features_Linear [simp]: "out_features (Linear rnd name i n) = n"
  by (simp add: Linear_def)

lemma wf_chain_append:
  "wf_chain i (ls @ [l]) \<longleftrightarrow>
   wf_chain i ls \<and> in_features l = last (i # map out_features ls) \<and> wf_linear l"
  by (induction ls arbitrary: i) auto

lemma wf_chain_mk_hidden: "wf_chain i (mk_hidden rnd k i hs)"
  by (induction hs arbitrary: i k) simp_all

lemma out_features_mk_hidden [simp]: "map out_features (mk_hidden rnd k i hs) = hs"
  by (induction hs arbitrary: i k) simp_all

lemma length_mk_hidden [simp]: "length (mk_hidden rnd k i hs) = length hs"
  by (induction hs arbitrary: i k) simp_all

lemma hidden_widths_Network [simp]: "hidden_widths (Network rnd i n hs) = hs"
  by (simp add: hidden_widths_def Network_def)

lemma net_output_size_Network [simp]: "net_output_size (Network rnd i n hs) = n"
  by (simp add: net_output_size_def Network_def)

lemma net_input_size_Network [simp]: "net_input_size (Network rnd i n hs) = i"
  by (cases hs) (simp_all add: net_input_size_def Network_def)

lemma wf_Network [simp]: "wf_network (Network rnd i n hs)"
proof -
  have "wf_chain i (mk_hidden rnd 0 i hs @ [Linear rnd ''output'' (last (i # hs)) n])"
    by (simp add: wf_chain_append wf_chain_mk_hidden)
  then show ?thesis
    unfolding wf_network_def net_input_size_Network by (simp add: Network_def)
qed

lemma widths_Network [simp]: "widths (Network rnd i n hs) = i # hs @ [n]"
  by (simp add: widths_def)

section \<open>Layers of equal sizes\<close>

lemma wf_chain_same_sizes:
  "wf_chain i ls \<Longrightarrow> wf_chain i cs \<Longrightarrow> map out_features ls = map out_features cs \<Longrightarrow>
   list_all2 same_sizes ls cs"
proof (induction ls arbitrary: i cs)
  case Nil
  then show ?case by simp
next
  case (Cons l ls)
  then obtain c cs' where cs: "cs = c # cs'" by (cases cs) auto
  with Cons.prems have "same_sizes l c" by (simp add: same_sizes_def)
  moreover from Cons.prems cs have "list_all2 same_sizes ls cs'"
    by (intro Cons.IH [of "out_features l"]) simp_all
  ultimately show ?case by (simp add: cs)
qed

lemma same_sizes_shapes:
  "wf_linear l \<Longrightarrow> wf_linear c \<Longrightarrow>
   same_sizes l c \<longleftrightarrow> shape (weight l) = shape (weight c) \<and> shape (bias l) = shape (bias c)"
  by (auto simp: same_sizes_def wf_linear_def)

lemma wf_chain_all: "wf_chain i ls \<Longrightarrow> list_all wf_linear ls"
  by (induction ls arbitrary: i) auto

lemma same_sizes_out_features:
  "list_all2 same_sizes ls cs \<Longrightarrow> map out_features ls = map out_features cs"
  by (induction rule: list_all2_induct) (simp_all add: same_sizes_def)

lemma widths_eq_iff:
  "widths m = widths c \<longleftrightarrow>
   net_input_size m = net_input_size c \<and> hidden_widths m = hidden_widths c
   \<and> net_output_size m = net_output_size c"
proof -
  have "length (hidden_widths m) = length (hidden_widths c)"
    if "hidden_widths m @ [net_output_size m] = hidden_widths c @ [net_output_size c]"
    using arg_cong [OF that, of length] by simp
  then show ?thesis by (auto simp: widths_def)
qed

lemma same_widths_same_sizes:
  assumes "wf_network m" "wf_network c" "widths m = widths c"
  shows "list_all2 same_sizes (hidden_layers m @ [output_layer m]) (hidden_layers c @ [output_layer c])"
proof -
  from assms(3) have "net_input_size m = net_input_size c"
    and "map out_features (hidden_layers m @ [output_layer m]) = map out_features (hidden_layers c @ [output_layer c])"
    by (simp_all add: widths_eq_iff hidden_widths_def net_output_size_def)
  with assms(1,2) show ?thesis
    unfolding wf_network_def by (intro wf_chain_same_sizes [of "net_input_size c"]) simp_all
qed

lemma same_sizes_same_widths:
  assumes "list_all2 same_sizes (hidden_layers m @ [output_layer m]) (hidden_layers c @ [output_layer c])"
  shows "widths m = widths c"
proof -
  from assms have len: "length (hidden_layers m) = length (hidden_layers c)"
    by (auto dest: list_all2_lengthD)
  from assms have hd: "same_sizes (hd (hidden_layers m @ [output_layer m])) (hd (hidden_layers c @ [output_layer c]))"
    by (cases "hidden_layers m"; cases "hidden_layers c") auto
  from assms len have "list_all2 same_sizes (hidden_layers m) (hidden_layers c)"
    and "same_sizes (output_layer m) (output_layer c)"
    by (simp_all add: list_all2_append)
  then have "map out_features (hidden_layers m) = map out_features (hidden_layers c)"
    and "out_features (output_layer m) = out_features (output_layer c)"
    by (simp_all add: same_sizes_out_features) (simp add: same_sizes_def)
  with hd show ?thesis
    by (simp add: widths_eq_iff hidden_widths_def net_output_size_def net_input_size_def same_sizes_def)
qed

section \<open>What load_state_dict reports and loads\<close>

lemma size_mismatches_positional:
  assumes "map fst ps = map fst sd" "distinct (map fst sd)"
    and "set (map fst pre) \<inter> set (map fst sd) = {}"
  shows "size_mismatches (pre @ sd) ps = incompatible sd ps"
  using assms
proof (induction ps arbitrary: sd pre)
  case Nil
  then show ?case by (simp add: incompatible_def)
next
  case (Cons kp ps)
  obtain k p where kp: "kp = (k, p)" by (cases kp)
  from Cons.prems(1) kp obtain t sd' where sd: "sd = (k, t) # sd'"
    by (cases sd) auto
  from Cons.prems(3) sd have "k \<notin> set (map fst pre)" by auto
  then have "map_of pre k = None" by (simp add: map_of_eq_None_iff)
  then have look: "map_of (pre @ sd) k = Some t"
    by (simp add: sd map_add_def)
  have "size_mismatches ((pre @ [(k, t)]) @ sd') ps = incompatible sd' ps"
  proof (rule Cons.IH)
    show "map fst ps = map fst sd'" using Cons.prems(1) sd by simp
    show "distinct (map fst sd')" using Cons.prems(2) sd by simp
    show "set (map fst (pre @ [(k, t)])) \<inter> set (map fst sd') = {}"
      using Cons.prems(2,3) sd by auto
  qed
  then have rest: "size_mismatches (pre @ sd) ps = incompatible sd' ps" by (simp add: sd)
  show ?case
    unfolding kp size_mismatches.simps look rest
    by (simp add: sd incompatible_def)
qed

lemma size_mismatches_state_dict:
  assumes "length (hidden_layers m) = length (hidden_layers c)"
  shows "size_mismatches (state_dict c) (state_dict m) = incompatible (state_dict c) (state_dict m)"
  using size_mismatches_positional [of "state_dict m" "state_dict c" "[]"] assms
  by (simp add: fst_state_dict distinct_param_names)

lemma no_key_reports:
  assumes "length (hidden_layers m) = length (hidden_layers c)"
  shows "missing_keys (state_dict c) (state_dict m) = []"
    and "unexpected_keys (state_dict c) (state_dict m) = []"
  using assms by (simp_all add: missing_keys_Nil_iff unexpected_keys_Nil_iff fst_state_dict)

lemma incompatible_linear_items:
  "incompatible (linear_items k c @ r1) (linear_items k' l @ r2) =
   layer_mismatch k c l @ incompatible r1 r2"
  by (simp add: incompatible_def linear_items_def layer_mismatch_def)

lemma layer_mismatch_Nil_iff:
  "wf_linear l \<Longrightarrow> wf_linear c \<Longrightarrow> layer_mismatch k c l = [] \<longleftrightarrow> same_sizes l c"
  by (auto simp: layer_mismatch_def same_sizes_shapes)

lemma incompatible_hidden_items:
  assumes "length ls = length cs" "list_all wf_linear ls" "list_all wf_linear cs"
  shows "incompatible (hidden_items i cs @ r1) (hidden_items i ls @ r2) = [] \<longleftrightarrow>
         list_all2 same_sizes ls cs \<and> incompatible r1 r2 = []"
  using assms
proof (induction ls cs arbitrary: i rule: list_induct2)
  case Nil
  show ?case by simp
next
  case (Cons l ls c cs)
  have "incompatible (hidden_items i (c # cs) @ r1) (hidden_items i (l # ls) @ r2) =
        layer_mismatch (hidden_name i) c l
        @ incompatible (hidden_items (Suc i) cs @ r1) (hidden_items (Suc i) ls @ r2)"
    using incompatible_linear_items
      [of "hidden_name i" c "hidden_items (Suc i) cs @ r1" "hidden_name i" l "hidden_items (Suc i) ls @ r2"]
    by simp
  with Cons show ?case by (auto simp: layer_mismatch_Nil_iff)
qed

lemma incompatible_state_dict_Nil_iff:
  assumes "wf_network m" "wf_network c" "length (hidden_layers m) = length (hidden_layers c)"
  shows "incompatible (state_dict c) (state_dict m) = [] \<longleftrightarrow> widths m = widths c"
proof -
  from assms(1,2) have wm: "list_all wf_linear (hidden_layers m)" "wf_linear (output_layer m)"
    and wc: "list_all wf_linear (hidden_layers c)" "wf_linear (output_layer c)"
    by (auto simp: wf_network_def dest: wf_chain_all)
  have out: "incompatible (linear_items ''output'' (output_layer c)) (linear_items ''output'' (output_layer m)) = []
      \<longleftrightarrow> same_sizes (output_layer m) (output_layer c)"
    using incompatible_linear_items [of "''output''" "output_layer c" "[]" "''output''" "output_layer m" "[]"]
      layer_mismatch_Nil_iff [OF wm(2) wc(2), of "''output''"]
    by (simp add: incompatible_def)
  have "incompatible (state_dict c) (state_dict m) = [] \<longleftrightarrow>
        list_all2 same_sizes (hidden_layers m @ [output_layer m]) (hidden_layers c @ [output_layer c])"
    unfolding state_dict_def
    using incompatible_hidden_items [OF assms(3) wm(1) wc(1)] out assms(3)
    by (simp add: list_all2_append)
  then show ?thesis
    using same_widths_same_sizes [OF assms(1,2)] same_sizes_same_widths [of m c] by blast
qed

lemma load_linear_same:
  assumes "map_of sd (p @ ''.weight'') = Some (weight c)" "map_of sd (p @ ''.bias'') = Some (bias c)"
    and "same_sizes l c" "wf_linear l" "wf_linear c"
  shows "load_linear sd p l = c"
  using assms
  by (cases l; cases c) (simp add: load_linear_def load_param_def same_sizes_def wf_linear_def)

lemma load_hidden_same:
  assumes "list_all2 same_sizes ls (drop i (hidden_layers c))"
    and "list_all wf_linear ls" "list_all wf_linear (hidden_layers c)"
  shows "load_hidden (state_dict c) i ls = drop i (hidden_layers c)"
  using assms
proof (induction ls arbitrary: i)
  case Nil
  then show ?case by simp
next
  case (Cons l ls)
  from Cons.prems(1) obtain c0 rest where d: "drop i (hidden_layers c) = c0 # rest"
    and s: "same_sizes l c0" and r: "list_all2 same_sizes ls rest"
    by (auto simp: list_all2_Cons1)
  from d have i: "i < length (hidden_layers c)" by (cases "i < length (hidden_layers c)") auto
  from d have c0: "c0 = hidden_layers c ! i" by (simp add: nth_via_drop)
  from d have rest: "rest = drop (Suc i) (hidden_layers c)"
    by (metis drop_Suc list.sel(3) tl_drop)
  have wc0: "wf_linear c0" using Cons.prems(3) i c0 by (simp add: list_all_length)
  have "load_linear (state_dict c) (hidden_name i) l = c0"
    using state_dict_weight [OF i] state_dict_bias [OF i] s Cons.prems(2) wc0
    by (intro load_linear_same) (simp_all add: c0)
  moreover have "load_hidden (state_dict c) (Suc i) ls = drop (Suc i) (hidden_layers c)"
    using r Cons.prems(2,3) by (intro Cons.IH) (simp_all add: rest)
  ultimately show ?case by (simp add: d rest)
qed

lemma load_state_dict_same_widths:
  assumes "wf_network m" "wf_network c" "widths m = widths c"
  shows "load_state_dict m (state_dict c) = Inr (c\<lparr>dropout := dropout m\<rparr>)"
proof -
  from assms(3) have len: "length (hidden_layers m) = length (hidden_layers c)"
    by (auto simp: widths_eq_iff hidden_widths_def dest: map_eq_imp_length_eq)
  from assms(1,2) have wm: "list_all wf_linear (hidden_layers m)" "wf_linear (output_layer m)"
    and wc: "list_all wf_linear (hidden_layers c)" "wf_linear (output_layer c)"
    by (auto simp: wf_network_def dest: wf_chain_all)
  from same_widths_same_sizes [OF assms] len
  have hs: "list_all2 same_sizes (hidden_layers m) (hidden_layers c)"
    and os: "same_sizes (output_layer m) (output_layer c)"
    by (simp_all add: list_all2_append)
  have h: "load_hidden (state_dict c) 0 (hidden_layers m) = hidden_layers c"
    using load_hidden_same [of "hidden_layers m" 0 c] hs wm(1) wc(1) by simp
  have o: "load_linear (state_dict c) ''output'' (output_layer m) = output_layer c"
    using state_dict_output [of c] os wm(2) wc(2) by (intro load_linear_same) simp_all
  have "incompatible (state_dict c) (state_dict m) = []"
    using incompatible_state_dict_Nil_iff [OF assms(1,2) len] assms(3) by simp
  then have "load_state_dict m (state_dict c) =
      Inr (m\<lparr>hidden_layers := hidden_layers c, output_layer := output_layer c\<rparr>)"
    by (simp add: load_state_dict_def no_key_reports [OF len] size_mismatches_state_dict [OF len] h o)
  then show ?thesis by (cases m; cases c) simp
qed

lemma load_state_dict_other_widths:
  assumes "wf_network m" "wf_network c" "length (hidden_layers m) = length (hidden_layers c)"
    and "widths m \<noteq> widths c"
  shows "load_state_dict m (state_dict c) =
           Inl (LoadError [] [] (incompatible (state_dict c) (state_dict m)))"
    and "incompatible (state_dict c) (state_dict m) \<noteq> []"
proof -
  show ne: "incompatible (state_dict c) (state_dict m) \<noteq> []"
    using incompatible_state_dict_Nil_iff [OF assms(1,2,3)] assms(4) by simp
  then show "load_state_dict m (state_dict c) =
           Inl (LoadError [] [] (incompatible (state_dict c) (state_dict m)))"
    by (simp add: load_state_dict_def no_key_reports [OF assms(3)]
        size_mismatches_state_dict [OF assms(3)])
qed

lemma load_state_dict_other_depth:
  assumes "length (hidden_layers m) \<noteq> length (hidden_layers c)"
  shows "missing_keys (state_dict c) (state_dict m) \<noteq> [] \<or> unexpected_keys (state_dict c) (state_dict m) \<noteq> []"
proof -
  have "set (param_names (length (hidden_layers m))) \<noteq> set (param_names (length (hidden_layers c)))"
  proof
    assume e: "set (param_names (length (hidden_layers m))) = set (param_names (length (hidden_layers c)))"
    have "card (set (param_names n)) = 2 * n + 2" for n
      using distinct_card [OF distinct_param_names, of n] by (simp add: length_param_names)
    with e have "2 * length (hidden_layers m) + 2 = 2 * length (hidden_layers c) + 2" by metis
    with assms show False by simp
  qed
  then show ?thesis
    unfolding missing_keys_Nil_iff unexpected_keys_Nil_iff fst_state_dict by blast
qed

section \<open>Evaluating small networks\<close>

lemma hidden_name_digits:
  "hidden_name 0 = ''hidden_layers.0''" "hidden_name 1 = ''hidden_layers.1''"
  "hidden_name 2 = ''hidden_layers.2''"
  "hidden_name (Suc 0) = ''hidden_layers.1''" "hidden_name (Suc (Suc 0)) = ''hidden_layers.2''"
  by (simp_all add: hidden_name_def str_nat_small digit_char_def)

lemmas network_eval =
  Network_def Linear_def state_dict_def linear_items_def hidden_name_digits

section \<open>What a successful load puts into the model\<close>

lemma hidden_items_load_hidden:
  "hidden_items i (load_hidden sd i ls) = map (\<lambda>(k, p). (k, load_param sd k p)) (hidden_items i ls)"
  by (induction ls arbitrary: i) (simp_all add: linear_items_def load_linear_def)

lemma state_dict_loaded:
  "state_dict (m\<lparr>hidden_layers := load_hidden sd 0 (hidden_layers m),
                 output_layer := load_linear sd ''output'' (output_layer m)\<rparr>)
   = map (\<lambda>(k, p). (k, load_param sd k p)) (state_dict m)"
  by (simp add: state_dict_def hidden_items_load_hidden linear_items_def load_linear_def)

lemma map_of_loaded:
  "map_of (map (\<lambda>(k, p). (k, load_param sd k p)) ps) k = map_option (load_param sd k) (map_of ps k)"
  by (induction ps) auto

lemma matched_param:
  assumes "missing_keys sd ps = []" "size_mismatches sd ps = []" "(k, p) \<in> set ps"
  shows "map_of sd k = Some (load_param sd k p)"
  using assms
proof (induction ps)
  case Nil
  then show ?case by simp
next
  case (Cons kp ps)
  obtain k' p' where kp: "kp = (k', p')" by (cases kp)
  from Cons.prems(1) kp have m: "map_of sd k' \<noteq> None" "missing_keys sd ps = []"
    by (auto simp: missing_keys_def split: if_splits)
  from Cons.prems(2) kp have s: "size_mismatches sd ps = []"
    by simp
  show ?case
  proof (cases "(k, p) = (k', p')")
    case True
    from m(1) obtain t where t: "map_of sd k' = Some t" by auto
    with Cons.prems(2) kp have "shape t = shape p'" by (auto split: if_splits)
    with t True show ?thesis by (simp add: load_param_def)
  next
    case False
    with Cons.prems(3) kp have "(k, p) \<in> set ps" by auto
    with m(2) s show ?thesis by (rule Cons.IH)
  qed
qed

lemma load_state_dict_restores:
  assumes "load_state_dict m sd = Inr m'"
  shows "map_of (state_dict m') = map_of sd"
proof
  fix k
  let ?ps = "state_dict m"
  from assms have miss: "missing_keys sd ?ps = []" and unex: "unexpected_keys sd ?ps = []"
    and mism: "size_mismatches sd ?ps = []"
    and m': "m' = m\<lparr>hidden_layers := load_hidden sd 0 (hidden_layers m),
                    output_layer := load_linear sd ''output'' (output_layer m)\<rparr>"
    by (auto simp: load_state_dict_def Let_def split: if_splits)
  have loaded: "map_of (state_dict m') k = map_option (load_param sd k) (map_of ?ps k)"
    unfolding m' state_dict_loaded by (rule map_of_loaded)
  show "map_of (state_dict m') k = map_of sd k"
  proof (cases "map_of ?ps k")
    case None
    then have "k \<notin> set (map fst ?ps)" by (simp add: map_of_eq_None_iff)
    with unex have "k \<notin> set (map fst sd)"
      unfolding unexpected_keys_Nil_iff by auto
    then have "map_of sd k = None" by (simp add: map_of_eq_None_iff)
    with None loaded show ?thesis by simp
  next
    case (Some p)
    then have "(k, p) \<in> set ?ps" by (rule map_of_SomeD)
    from matched_param [OF miss mism this] Some loaded show ?thesis by simp
  qed
qed

section \<open>The state dict and the checkpoint\<close>

text \<open>
  C10. The state dict of a model maps parameter names to the current values: for each
  hidden layer, in order, one weight and one bias under the layer's name, then the weight
  and the bias of the output layer, and nothing else. The names are pairwise distinct,
  so the dict is a mapping; it is what the checkpoint stores under \<open>state_dict\<close>. A
  state dict that \<open>load_state_dict\<close> accepts has exactly these names, and after the
  load the state dict of the model maps every name to the tensor the loaded dict gave
  it: these entries, and no others, are restored.
\<close>

theorem state_dict_entries:
  "map fst (state_dict m) = param_names (length (hidden_layers m))
   \<and> distinct (map fst (state_dict m))
   \<and> length (state_dict m) = 2 * (length (hidden_layers m) + 1)
   \<and> (\<forall>j<length (hidden_layers m).
         map_of (state_dict m) (hidden_name j @ ''.weight'') = Some (weight (hidden_layers m ! j))
       \<and> map_of (state_dict m) (hidden_name j @ ''.bias'') = Some (bias (hidden_layers m ! j)))
   \<and> map_of (state_dict m) ''output.weight'' = Some (weight (output_layer m))
   \<and> map_of (state_dict m) ''output.bias'' = Some (bias (output_layer m))
   \<and> map_of (checkpoint m) ''state_dict'' = Some (PStateDict (state_dict m))
   \<and> (\<forall>sd m'. load_state_dict m sd = Inr m' \<longrightarrow>
         set (map fst sd) = set (map fst (state_dict m))
       \<and> map fst (state_dict m') = map fst (state_dict m)
       \<and> map_of (state_dict m') = map_of sd)"
proof -
  have "map fst (state_dict m') = map fst (state_dict m)"
    if "load_state_dict m sd = Inr m'" for sd m'
    using load_state_dict_depth [OF that] by (simp only: fst_state_dict)
  then show ?thesis
    using load_state_dict_keys [of m] load_state_dict_restores [of m]
    by (simp add: fst_state_dict distinct_param_names length_state_dict state_dict_weight
        state_dict_bias state_dict_output checkpoint_def)
qed

theorem state_dict_entries_witness:
  "map fst (state_dict (Network zero_init 3 2 [2])) =
     [''hidden_layers.0.weight'', ''hidden_layers.0.bias'', ''output.weight'', ''output.bias'']
   \<and> map_of (state_dict (Network zero_init 3 2 [2])) ''hidden_layers.0.weight''
       = Some (init_tensor zero_init ''hidden_layers.0.weight'' [2, 3])
   \<and> load_state_dict (Network zero_init 3 2 [2]) (state_dict (Network one_init 3 2 [2]))
       = Inr (Network one_init 3 2 [2])
   \<and> set (map fst (state_dict (Network one_init 3 2 [2])))
       = set (map fst (state_dict (Network zero_init 3 2 [2])))
   \<and> map_of (state_dict (Network one_init 3 2 [2])) ''hidden_layers.0.weight''
       = Some (init_tensor one_init ''hidden_layers.0.weight'' [2, 3])"
proof -
  let ?m = "Network zero_init 3 2 [2] :: int network"
  let ?c = "Network one_init 3 2 [2] :: int network"
  have len: "(0::nat) < length (hidden_layers ?m)" by (simp add: Network_def)
  have h0: "hidden_name 0 = ''hidden_layers.0''"
    by (simp add: hidden_name_def str_nat_small digit_char_def)
  have w: "weight (hidden_layers ?m ! 0) = init_tensor zero_init ''hidden_layers.0.weight'' [2, 3]"
    by (simp add: Network_def Linear_def h0)
  have names: "param_names (length (hidden_layers ?m)) =
      [''hidden_layers.0.weight'', ''hidden_layers.0.bias'', ''output.weight'', ''output.bias'']"
    by (simp add: Network_def param_names_def hidden_name_def str_nat_small digit_char_def)
  have ld: "load_state_dict ?m (state_dict ?c) = Inr ?c"
    by (simp add: load_state_dict_def missing_keys_def unexpected_keys_def state_dict_def
        Network_def Linear_def linear_items_def load_linear_def load_param_def h0)
  have sdw: "map_of (state_dict ?c) ''hidden_layers.0.weight''
      = Some (init_tensor one_init ''hidden_layers.0.weight'' [2, 3])"
    by (simp add: state_dict_def Network_def Linear_def linear_items_def h0)
  note T = state_dict_entries [of ?m]
  from T have a: "map fst (state_dict ?m) = param_names (length (hidden_layers ?m))"
    by (rule conjunct1)
  from T len have b: "map_of (state_dict ?m) (hidden_name 0 @ ''.weight'')
      = Some (weight (hidden_layers ?m ! 0))" by blast
  from T ld have c: "set (map fst (state_dict ?c)) = set (map fst (state_dict ?m))" by blast
  have k: "hidden_name 0 @ ''.weight'' = ''hidden_layers.0.weight''" by (simp add: h0)
  show ?thesis using a b c ld sdw unfolding names w k by blast
qed

text \<open>
  C3. The checkpoint written to the file is a mapping with exactly the keys
  \<open>input_size\<close> and \<open>output_size\<close> (integers), \<open>hidden_layers\<close> (the
  \<open>out_features\<close> of the hidden layers, in layer order) and \<open>state_dict\<close> (the mapping
  from parameter name to tensor, with pairwise distinct names). For a model built by the
  constructor the widths stored are those it was built with.
\<close>

theorem checkpoint_contents:
  "torch_load (torch_save (checkpoint m) path fs) path = Inr (checkpoint m)
   \<and> map fst (checkpoint m) = [''input_size'', ''output_size'', ''hidden_layers'', ''state_dict'']
   \<and> getitem (checkpoint m) ''input_size'' = Inr (PInt 784)
   \<and> getitem (checkpoint m) ''output_size'' = Inr (PInt 10)
   \<and> getitem (checkpoint m) ''hidden_layers''
       = Inr (PIntList (map (\<lambda>each. int (out_features each)) (hidden_layers m)))
   \<and> getitem (checkpoint m) ''state_dict'' = Inr (PStateDict (state_dict m))
   \<and> distinct (map fst (state_dict m))
   \<and> getitem (checkpoint (Network rnd i n hs)) ''hidden_layers'' = Inr (PIntList (map int hs))"
proof -
  have saved: "torch_load (torch_save (checkpoint m) path fs) path = Inr (checkpoint m)"
    by (simp add: torch_load_def torch_save_def)
  have keys: "map fst (checkpoint m)
      = [''input_size'', ''output_size'', ''hidden_layers'', ''state_dict'']"
    by (simp add: checkpoint_def)
  have entries: "getitem (checkpoint m) ''input_size'' = Inr (PInt 784)"
    "getitem (checkpoint m) ''output_size'' = Inr (PInt 10)"
    "getitem (checkpoint m) ''hidden_layers''
       = Inr (PIntList (map (\<lambda>each. int (out_features each)) (hidden_layers m)))"
    "getitem (checkpoint m) ''state_dict'' = Inr (PStateDict (state_dict m))"
    by (simp_all add: checkpoint_def getitem_def)
  have "map (\<lambda>each. int (out_features each)) (hidden_layers (Network rnd i n hs))
      = map int (map out_features (hidden_layers (Network rnd i n hs)))"
    by simp
  also have "map out_features (hidden_layers (Network rnd i n hs)) = hs"
    by (simp add: Network_def)
  finally have built:
    "getitem (checkpoint (Network rnd i n hs)) ''hidden_layers'' = Inr (PIntList (map int hs))"
    by (simp add: checkpoint_def getitem_def)
  from saved keys entries distinct_state_dict [of m] built show ?thesis by blast
qed

section \<open>Loading into another architecture\<close>

text \<open>
  C2 (amended). Let the model and the network that produced the state dict be well
  formed. If both declare the same sizes, \<open>load_state_dict\<close> succeeds and the model
  holds the loaded values. If they have the same number of hidden layers and some declared
  size differs, the call fails with a size-mismatch error that has no missing and no
  unexpected key and lists exactly the tensors whose shapes differ, at least one. If the
  numbers of hidden layers differ, the call fails and reports a missing or an unexpected
  key.
\<close>

theorem load_state_dict_widths:
  assumes "wf_network m" "wf_network c"
  shows "(widths m = widths c \<longrightarrow>
            load_state_dict m (state_dict c) = Inr (c\<lparr>dropout := dropout m\<rparr>))
       \<and> (widths m \<noteq> widths c \<and> length (hidden_layers m) = length (hidden_layers c) \<longrightarrow>
            load_state_dict m (state_dict c)
              = Inl (LoadError [] [] (incompatible (state_dict c) (state_dict m)))
            \<and> incompatible (state_dict c) (state_dict m) \<noteq> [])
       \<and> (length (hidden_layers m) \<noteq> length (hidden_layers c) \<longrightarrow>
            (\<exists>missing unexpected mismatches.
               load_state_dict m (state_dict c) = Inl (LoadError missing unexpected mismatches)
               \<and> (missing \<noteq> [] \<or> unexpected \<noteq> [])))"
proof (intro conjI impI)
  assume "widths m = widths c"
  with assms show "load_state_dict m (state_dict c) = Inr (c\<lparr>dropout := dropout m\<rparr>)"
    by (rule load_state_dict_same_widths)
next
  assume a: "widths m \<noteq> widths c \<and> length (hidden_layers m) = length (hidden_layers c)"
  with assms show "load_state_dict m (state_dict c)
      = Inl (LoadError [] [] (incompatible (state_dict c) (state_dict m)))"
    by (intro load_state_dict_other_widths) simp_all
  from a assms show "incompatible (state_dict c) (state_dict m) \<noteq> []"
    by (intro load_state_dict_other_widths) simp_all
next
  assume "length (hidden_layers m) \<noteq> length (hidden_layers c)"
  from load_state_dict_other_depth [OF this]
  show "\<exists>missing unexpected mismatches.
      load_state_dict m (state_dict c) = Inl (LoadError missing unexpected mismatches)
      \<and> (missing \<noteq> [] \<or> unexpected \<noteq> [])"
    by (auto simp: load_state_dict_def Let_def)
qed

theorem load_state_dict_widths_witness:
  "load_state_dict (Network zero_init 3 2 [2]) (state_dict (Network one_init 3 2 [4]))
     = Inl (LoadError [] []
         [(''hidden_layers.0.weight'', [4, 3], [2, 3]),
          (''hidden_layers.0.bias'', [4], [2]),
          (''output.weight'', [2, 4], [2, 2])])
   \<and> load_state_dict (Network zero_init 3 2 [2]) (state_dict (Network one_init 3 2 [2]))
     = Inr (Network one_init 3 2 [2])
   \<and> (\<exists>missing unexpected mismatches.
        load_state_dict (Network zero_init 3 2 [2]) (state_dict (Network one_init 3 2 [2, 2]))
          = Inl (LoadError missing unexpected mismatches)
        \<and> (missing \<noteq> [] \<or> unexpected \<noteq> []))"
proof -
  let ?m = "Network zero_init 3 2 [2]"
  have inc: "incompatible (state_dict (Network one_init 3 2 [4])) (state_dict ?m) =
         [(''hidden_layers.0.weight'', [4, 3], [2, 3]),
          (''hidden_layers.0.bias'', [4], [2]),
          (''output.weight'', [2, 4], [2, 2])]"
    by (simp add: incompatible_def network_eval)
  have d: "Network one_init 3 2 [2] \<lparr>dropout := dropout ?m\<rparr> = Network one_init 3 2 [2]"
    by (simp add: Network_def)
  have l1: "length (hidden_layers ?m) = length (hidden_layers (Network one_init 3 2 [4]))"
    and l2: "length (hidden_layers ?m) \<noteq> length (hidden_layers (Network one_init 3 2 [2, 2]))"
    by (simp_all add: Network_def)
  have w1: "widths ?m \<noteq> widths (Network one_init 3 2 [4])"
    and w2: "widths ?m = widths (Network one_init 3 2 [2])"
    by simp_all
  from load_state_dict_widths [OF wf_Network wf_Network, of zero_init 3 2 "[2]" one_init 3 2 "[4]"] w1 l1
  have a: "load_state_dict ?m (state_dict (Network one_init 3 2 [4]))
      = Inl (LoadError [] [] (incompatible (state_dict (Network one_init 3 2 [4])) (state_dict ?m)))"
    by blast
  from load_state_dict_widths [OF wf_Network wf_Network, of zero_init 3 2 "[2]" one_init 3 2 "[2]"] w2
  have b: "load_state_dict ?m (state_dict (Network one_init 3 2 [2]))
      = Inr (Network one_init 3 2 [2] \<lparr>dropout := dropout ?m\<rparr>)"
    by blast
  from load_state_dict_widths [OF wf_Network wf_Network, of zero_init 3 2 "[2]" one_init 3 2 "[2, 2]"] l2
  have c: "\<exists>missing unexpected mismatches.
        load_state_dict ?m (state_dict (Network one_init 3 2 [2, 2]))
          = Inl (LoadError missing unexpected mismatches)
        \<and> (missing \<noteq> [] \<or> unexpected \<noteq> [])"
    by blast
  from a b c show ?thesis unfolding inc d by blast
qed

theorem load_state_dict_depth_counterexample:
  "widths (Network zero_init 4 2 [3, 2]) \<noteq> widths (Network one_init 4 2 [3, 2, 2])
   \<and> load_state_dict (Network zero_init 4 2 [3, 2]) (state_dict (Network one_init 4 2 [3, 2, 2]))
     = Inl (LoadError [] [''hidden_layers.2.weight'', ''hidden_layers.2.bias''] [])"
proof (intro conjI)
  show "widths (Network zero_init 4 2 [3, 2]) \<noteq> widths (Network one_init 4 2 [3, 2, 2])"
    by simp
  show "load_state_dict (Network zero_init 4 2 [3, 2]) (state_dict (Network one_init 4 2 [3, 2, 2]))
     = Inl (LoadError [] [''hidden_layers.2.weight'', ''hidden_layers.2.bias''] [])"
    by (simp add: load_state_dict_def missing_keys_def unexpected_keys_def network_eval)
qed

section \<open>The checkpoint round trip\<close>

text \<open>
  C1 (amended). For every well-formed model whose input size is 784 and whose output size
  is 10, the sizes that the checkpoint cell writes as literals, saving the checkpoint and
  calling \<open>load_checkpoint\<close> on the file returns a model with the same input size, the
  same output size, the same hidden-layer widths in order and the parameter values that
  were saved.
\<close>

theorem checkpoint_roundtrip:
  assumes "wf_network m" "net_input_size m = 784" "net_output_size m = 10"
  shows "\<exists>m'. load_checkpoint rnd (torch_save (checkpoint m) path fs) path = Inr m'
           \<and> net_input_size m' = net_input_size m
           \<and> net_output_size m' = net_output_size m
           \<and> hidden_widths m' = hidden_widths m
           \<and> state_dict m' = state_dict m
           \<and> hidden_layers m' = hidden_layers m \<and> output_layer m' = output_layer m"
proof -
  let ?n = "Network rnd 784 10 (map out_features (hidden_layers m))"
  have "widths m = 784 # map out_features (hidden_layers m) @ [10]"
    using assms(2,3) by (simp add: widths_def hidden_widths_def)
  then have "widths ?n = widths m"
    by simp
  then have "load_state_dict ?n (state_dict m) = Inr (m\<lparr>dropout := dropout ?n\<rparr>)"
    using assms(1) by (intro load_state_dict_same_widths) simp_all
  then have "load_checkpoint rnd (torch_save (checkpoint m) path fs) path
      = Inr (m\<lparr>dropout := dropout ?n\<rparr>)"
    by (simp add: load_checkpoint_def torch_load_def torch_save_def checkpoint_def getitem_def
        list_all_iff comp_def)
  then show ?thesis
    by (simp add: net_input_size_def net_output_size_def hidden_widths_def state_dict_def)
qed

theorem checkpoint_roundtrip_witness:
  "\<exists>m'. load_checkpoint zero_init
          (torch_save (checkpoint (Network one_init 784 10 [2])) ''checkpoint.pth'' no_files)
          ''checkpoint.pth'' = Inr m'
       \<and> net_input_size m' = 784 \<and> net_output_size m' = 10 \<and> hidden_widths m' = [2]
       \<and> state_dict m' = state_dict (Network one_init 784 10 [2])"
proof -
  have "\<exists>m'. load_checkpoint zero_init
          (torch_save (checkpoint (Network one_init 784 10 [2])) ''checkpoint.pth'' no_files)
          ''checkpoint.pth'' = Inr m'
       \<and> net_input_size m' = net_input_size (Network one_init 784 10 [2])
       \<and> net_output_size m' = net_output_size (Network one_init 784 10 [2])
       \<and> hidden_widths m' = hidden_widths (Network one_init 784 10 [2])
       \<and> state_dict m' = state_dict (Network one_init 784 10 [2])
       \<and> hidden_layers m' = hidden_layers (Network one_init 784 10 [2])
       \<and> output_layer m' = output_layer (Network one_init 784 10 [2])"
    by (rule checkpoint_roundtrip) simp_all
  then show ?thesis
    unfolding net_input_size_Network net_output_size_Network hidden_widths_Network by blast
qed

theorem checkpoint_roundtrip_counterexample:
  "wf_network (Network one_init 3 2 [2])
   \<and> load_checkpoint zero_init
        (torch_save (checkpoint (Network one_init 3 2 [2])) ''checkpoint.pth'' no_files)
        ''checkpoint.pth''
     = Inl (LoadError [] []
         [(''hidden_layers.0.weight'', [2, 3], [2, 784]),
          (''output.weight'', [2, 2], [10, 2]),
          (''output.bias'', [2], [10])])"
proof (intro conjI)
  show "wf_network (Network one_init 3 2 [2])"
    by (rule wf_Network)
  show "load_checkpoint zero_init
        (torch_save (checkpoint (Network one_init 3 2 [2])) ''checkpoint.pth'' no_files)
        ''checkpoint.pth''
     = Inl (LoadError [] []
         [(''hidden_layers.0.weight'', [2, 3], [2, 784]),
          (''output.weight'', [2, 2], [10, 2]),
          (''output.bias'', [2], [10])])"
    by (simp add: load_checkpoint_def torch_load_def torch_save_def checkpoint_def getitem_def
        load_state_dict_def missing_keys_def unexpected_keys_def network_eval)
qed

section \<open>Files that lack a key\<close>

lemma load_checkpoint_lookup_order:
  assumes "fs filepath = Some d"
  shows "load_checkpoint rnd fs filepath =
     (case map_of d ''input_size'' of None \<Rightarrow> Inl (KeyError ''input_size'') | Some a \<Rightarrow>
     (case map_of d ''output_size'' of None \<Rightarrow> Inl (KeyError ''output_size'') | Some b \<Rightarrow>
     (case map_of d ''hidden_layers'' of None \<Rightarrow> Inl (KeyError ''hidden_layers'') | Some c \<Rightarrow>
     (case Network_call rnd a b c of Inl e \<Rightarrow> Inl e | Inr net \<Rightarrow>
     (case map_of d ''state_dict'' of None \<Rightarrow> Inl (KeyError ''state_dict'') | Some sd \<Rightarrow>
        load_state_dict_call net sd)))))"
  using assms
  by (simp add: load_checkpoint_def torch_load_def getitem_def split: option.splits sum.splits)

lemma first_missing_eq:
  "first_missing d =
     (if map_of d ''input_size'' = None then Some ''input_size''
      else if map_of d ''output_size'' = None then Some ''output_size''
      else if map_of d ''hidden_layers'' = None then Some ''hidden_layers''
      else if map_of d ''state_dict'' = None then Some ''state_dict'' else None)"
  by (simp add: first_missing_def checkpoint_keys_def)

lemma Network_call_accepted:
  "sizes_ok a b c \<Longrightarrow> \<exists>net. Network_call rnd a b c = Inr net"
  by (cases a; cases b; cases c) simp_all

lemma Network_call_rejected:
  "\<not> sizes_ok a b c \<Longrightarrow>
     Network_call rnd a b c \<in> {Inl NegativeDimension, Inl (TypeError ''input_size''),
       Inl (TypeError ''output_size''), Inl (TypeError ''hidden_layers'')}"
  by (cases a; cases b; cases c) simp_all

text \<open>
  C8. If the loaded mapping lacks any of the four keys, \<open>load_checkpoint\<close> returns no
  model. When one of the three architecture keys is absent, or when only
  \<open>state_dict\<close> is absent and the architecture entries are values the constructor
  accepts, the failure is the key-lookup error of the first absent key, in the order
  \<open>input_size\<close>, \<open>output_size\<close>, \<open>hidden_layers\<close>, \<open>state_dict\<close>; a file
  that holds the bare state dict fails on \<open>input_size\<close>. When only \<open>state_dict\<close>
  is absent and the constructor rejects the architecture entries, the failure is the
  constructor's error, raised before \<open>state_dict\<close> is looked up, and no key-lookup
  error.
\<close>

theorem load_checkpoint_missing_key:
  assumes "fs filepath = Some d" and "\<not> set checkpoint_keys \<subseteq> set (map fst d)"
  shows "isl (load_checkpoint rnd fs filepath)
       \<and> (\<not> set (take 3 checkpoint_keys) \<subseteq> set (map fst d) \<or> accepted_entries d \<longrightarrow>
            (\<exists>k. first_missing d = Some k \<and> load_checkpoint rnd fs filepath = Inl (KeyError k)))
       \<and> (set (take 3 checkpoint_keys) \<subseteq> set (map fst d) \<and> \<not> accepted_entries d \<longrightarrow>
            load_checkpoint rnd fs filepath \<in> {Inl NegativeDimension, Inl (TypeError ''input_size''),
              Inl (TypeError ''output_size''), Inl (TypeError ''hidden_layers'')})"
proof -
  have none: "k \<in> fst ` set d \<longleftrightarrow> map_of d k \<noteq> None" for k
    by (simp add: map_of_eq_None_iff)
  from assms(2) have miss: "map_of d ''input_size'' = None \<or> map_of d ''output_size'' = None
      \<or> map_of d ''hidden_layers'' = None \<or> map_of d ''state_dict'' = None"
    by (auto simp: checkpoint_keys_def none)
  have three: "\<not> set (take 3 checkpoint_keys) \<subseteq> set (map fst d) \<longleftrightarrow>
      map_of d ''input_size'' = None \<or> map_of d ''output_size'' = None
      \<or> map_of d ''hidden_layers'' = None"
    by (auto simp: checkpoint_keys_def none)
  note eq = load_checkpoint_lookup_order
    [where fs = fs and filepath = filepath and d = d and rnd = rnd, OF assms(1)]
  show ?thesis
  proof (cases "map_of d ''input_size'' = None \<or> map_of d ''output_size'' = None
      \<or> map_of d ''hidden_layers'' = None")
    case True
    then have "\<exists>k. first_missing d = Some k \<and> load_checkpoint rnd fs filepath = Inl (KeyError k)"
      unfolding eq first_missing_eq by (auto split: option.splits)
    moreover from this have "isl (load_checkpoint rnd fs filepath)" by auto
    moreover from True have "\<not> set (take 3 checkpoint_keys) \<subseteq> set (map fst d)"
      unfolding three .
    ultimately show ?thesis by blast
  next
    case False
    then obtain a b c where abc: "map_of d ''input_size'' = Some a"
      "map_of d ''output_size'' = Some b" "map_of d ''hidden_layers'' = Some c" by auto
    from False have all3: "set (take 3 checkpoint_keys) \<subseteq> set (map fst d)"
      using three by auto
    from False miss have sd: "map_of d ''state_dict'' = None" by auto
    have acc: "accepted_entries d \<longleftrightarrow> sizes_ok a b c"
      by (simp add: accepted_entries_def abc)
    have fm: "first_missing d = Some ''state_dict''"
      unfolding first_missing_eq by (simp add: abc sd)
    have lc: "load_checkpoint rnd fs filepath =
        (case Network_call rnd a b c of Inl e \<Rightarrow> Inl e | Inr net \<Rightarrow> Inl (KeyError ''state_dict''))"
      unfolding eq by (simp add: abc sd split: sum.splits)
    show ?thesis
    proof (cases "sizes_ok a b c")
      case True
      from Network_call_accepted [OF this] obtain net where "Network_call rnd a b c = Inr net"
        by blast
      then have "load_checkpoint rnd fs filepath = Inl (KeyError ''state_dict'')"
        unfolding lc by simp
      with fm acc True show ?thesis by simp
    next
      case no: False
      from Network_call_rejected [OF this, of rnd]
      have "load_checkpoint rnd fs filepath \<in> {Inl NegativeDimension, Inl (TypeError ''input_size''),
          Inl (TypeError ''output_size''), Inl (TypeError ''hidden_layers'')}"
        unfolding lc by auto
      moreover from this have "isl (load_checkpoint rnd fs filepath)" by auto
      ultimately show ?thesis using acc no all3 by blast
    qed
  qed
qed

theorem load_checkpoint_missing_key_witness:
  "load_checkpoint zero_init
     (torch_save (bare_state_dict (Network one_init 3 2 [2])) ''checkpoint.pth'' no_files)
     ''checkpoint.pth'' = Inl (KeyError ''input_size'')
   \<and> load_checkpoint zero_init
     (torch_save [(''input_size'', PInt 3), (''output_size'', PInt 2), (''hidden_layers'', PIntList [2])]
        ''checkpoint.pth'' no_files)
     ''checkpoint.pth'' = Inl (KeyError ''state_dict'')
   \<and> load_checkpoint zero_init
     (torch_save [(''input_size'', PInt 3), (''output_size'', PInt 2), (''hidden_layers'', PIntList [- 2])]
        ''checkpoint.pth'' no_files)
     ''checkpoint.pth'' \<in> {Inl NegativeDimension, Inl (TypeError ''input_size''),
        Inl (TypeError ''output_size''), Inl (TypeError ''hidden_layers'')}"
proof -
  let ?d = "bare_state_dict (Network one_init 3 2 [2])"
  let ?fs = "torch_save ?d ''checkpoint.pth'' no_files"
  let ?e = "[(''input_size'', PInt 3), (''output_size'', PInt 2), (''hidden_layers'', PIntList [2])] :: int pydict"
  let ?gs = "torch_save ?e ''checkpoint.pth'' no_files"
  let ?n = "[(''input_size'', PInt 3), (''output_size'', PInt 2), (''hidden_layers'', PIntList [- 2])] :: int pydict"
  let ?hs = "torch_save ?n ''checkpoint.pth'' no_files"
  have d: "?d = [(''hidden_layers.0.weight'', PTensor (init_tensor one_init ''hidden_layers.0.weight'' [2, 3])),
      (''hidden_layers.0.bias'', PTensor (init_tensor one_init ''hidden_layers.0.bias'' [2])),
      (''output.weight'', PTensor (init_tensor one_init ''output.weight'' [2, 2])),
      (''output.bias'', PTensor (init_tensor one_init ''output.bias'' [2]))]"
    by (simp add: bare_state_dict_def network_eval)
  have f: "?fs ''checkpoint.pth'' = Some ?d" and g: "?gs ''checkpoint.pth'' = Some ?e"
    and h: "?hs ''checkpoint.pth'' = Some ?n"
    by (simp_all add: torch_save_def)
  have m: "\<not> set checkpoint_keys \<subseteq> set (map fst ?d)"
    and t: "\<not> set (take 3 checkpoint_keys) \<subseteq> set (map fst ?d)"
    and fm: "first_missing ?d = Some ''input_size''"
    unfolding d by (simp_all add: checkpoint_keys_def first_missing_def)
  have m': "\<not> set checkpoint_keys \<subseteq> set (map fst ?e)" and t': "accepted_entries ?e"
    and fm': "first_missing ?e = Some ''state_dict''"
    by (simp_all add: checkpoint_keys_def accepted_entries_def first_missing_def)
  have m'': "\<not> set checkpoint_keys \<subseteq> set (map fst ?n)"
    and t'': "set (take 3 checkpoint_keys) \<subseteq> set (map fst ?n)" "\<not> accepted_entries ?n"
    by (simp_all add: checkpoint_keys_def accepted_entries_def)
  from load_checkpoint_missing_key
    [where fs = "?fs" and filepath = "''checkpoint.pth''" and d = "?d" and rnd = zero_init, OF f m] t fm
  have a: "load_checkpoint zero_init ?fs ''checkpoint.pth'' = Inl (KeyError ''input_size'')"
    by auto
  from load_checkpoint_missing_key
    [where fs = "?gs" and filepath = "''checkpoint.pth''" and d = "?e" and rnd = zero_init, OF g m'] t' fm'
  have b: "load_checkpoint zero_init ?gs ''checkpoint.pth'' = Inl (KeyError ''state_dict'')"
    by auto
  from load_checkpoint_missing_key
    [where fs = "?hs" and filepath = "''checkpoint.pth''" and d = "?n" and rnd = zero_init, OF h m''] t''
  have c: "load_checkpoint zero_init ?hs ''checkpoint.pth'' \<in> {Inl NegativeDimension,
      Inl (TypeError ''input_size''), Inl (TypeError ''output_size''), Inl (TypeError ''hidden_layers'')}"
    by blast
  from a b c show ?thesis by blast
qed

text \<open>
  A file without \<open>state_dict\<close> whose \<open>input_size\<close> is a list, and one whose
  \<open>input_size\<close> is negative: the constructor raises before \<open>state_dict\<close> is looked
  up, so the failure is no key-lookup error.
\<close>

theorem load_checkpoint_constructor_counterexample:
  "load_checkpoint zero_init
     (torch_save [(''input_size'', PIntList [3]), (''output_size'', PInt 2), (''hidden_layers'', PIntList [2])]
        ''checkpoint.pth'' no_files)
     ''checkpoint.pth'' = Inl (TypeError ''input_size'')
   \<and> load_checkpoint zero_init
     (torch_save [(''input_size'', PInt (- 1)), (''output_size'', PInt 2), (''hidden_layers'', PIntList [2])]
        ''checkpoint.pth'' no_files)
     ''checkpoint.pth'' = Inl NegativeDimension
   \<and> \<not> set checkpoint_keys
       \<subseteq> set (map fst [(''input_size'', PIntList [3]), (''output_size'', PInt 2), (''hidden_layers'', PIntList [2])])"
  by (simp add: load_checkpoint_def torch_load_def torch_save_def getitem_def checkpoint_keys_def)

section \<open>The forward pass on sizes\<close>

lemma model_layers:
  "map snd model = [LinearL 784 128, ReLU, LinearL 128 64, ReLU, LinearL 64 10]"
  by (simp add: model_def input_size_def hidden_sizes_def output_size_def)

lemma forward_shape_model:
  "forward_shape (map snd model) s =
     (if s \<noteq> [] \<and> last s = 784 then Inr (butlast s @ [10]) else Inl (ShapeError s 784))"
  by (simp add: model_layers)

lemma shape_resize [simp]: "shape (resize junk new t) = new"
  by (simp add: resize_def)

lemma model_forward_rows:
  "shape x = [n, 784] \<Longrightarrow>
   model_forward L s x = Inr \<lparr>shape = [n, 10], vals = forward_vals L s x\<rparr>"
  by (simp add: model_forward_def forward_shape_model)

lemma criterion_rows:
  "shape out = [n, c] \<Longrightarrow>
   criterion L out ls =
     (if n \<noteq> length ls then Inl (BatchSizeError n (length ls))
      else (case bad_target c ls of
              Some t \<Rightarrow> Inl (TargetOutOfBounds t)
            | None \<Rightarrow> Inr (loss_item L out ls)))"
  by (simp add: criterion_def)

lemma bad_target_digits:
  "list_all (\<lambda>t. 0 \<le> t \<and> t < 10) ls \<Longrightarrow> bad_target 10 ls = None"
  by (auto simp: bad_target_def find_None_iff list_all_iff)

section \<open>One step and one batch\<close>

lemma single_step_result:
  "single_step L (b # bs) s =
     (if length (labels b) \<noteq> 64 then Inl (BatchSizeError 64 (length (labels b)))
      else (case bad_target 10 (labels b) of
              Some t \<Rightarrow> Inl (TargetOutOfBounds t)
            | None \<Rightarrow>
                Inr \<lparr>params = step_params L s 64 b,
                     trace = [ZeroGrad, Forward [64, 784], Loss (step_loss L s 64 b),
                              Backward, Step]\<rparr>))"
  by (simp add: single_step_def Let_def call_zero_grad_def call_forward_def call_criterion_def
      call_backward_def call_step_def model_forward_rows criterion_rows step_loss_def
      step_params_def split: option.splits)

lemma train_batch_result:
  assumes "wf_batch b" "0 < print_every"
  shows "train_batch L epochs print_every e b r =
     Inr (r\<lparr>params := step_params L (params r) (length (labels b)) b,
            trace := trace r @ batch_events b (step_loss L (params r) (length (labels b)) b)
                  @ (if (steps r + 1) mod print_every = 0
                     then [Print (e + 1) epochs
                             ((running_loss r + step_loss L (params r) (length (labels b)) b)
                              / real print_every)]
                     else []),
            steps := steps r + 1,
            running_loss := (if (steps r + 1) mod print_every = 0 then 0
                          else running_loss r + step_loss L (params r) (length (labels b)) b)\<rparr>)"
proof -
  from assms(1) obtain rest where sh: "shape (images b) = length (labels b) # rest"
    by (auto simp: wf_batch_def split: list.splits)
  from assms(1) have bt: "bad_target 10 (labels b) = None"
    by (simp add: wf_batch_def bad_target_digits)
  show ?thesis
    using assms(2)
    by (simp add: train_batch_def sh bt Let_def call_zero_grad_def call_forward_def
        call_criterion_def call_backward_def call_step_def call_print_def model_forward_rows
        criterion_rows step_loss_def step_params_def batch_events_def)
qed

lemma wf_demo_batch: "wf_batch (demo_batch n k)"
  by (simp add: wf_batch_def demo_batch_def list_all_iff)

lemma labels_demo_batch [simp]: "length (labels (demo_batch n k)) = n"
  by (simp add: demo_batch_def)

lemma bad_target_demo_batch [simp]: "bad_target 10 (labels (demo_batch n k)) = None"
  using wf_demo_batch [of n k] by (simp add: wf_batch_def bad_target_digits)

lemma step_params_log_torch:
  "step_params log_torch s n b = s @ [''zero_grad'', ''backward'', ''step'']"
  by (simp add: step_params_def log_torch_def)

lemma step_loss_log_torch:
  "step_loss log_torch s n b = real (length s + 1)"
  by (simp add: step_loss_def log_torch_def)

text \<open>
  C9. The single training step resizes whatever batch it takes to 64 x 784, which never
  fails, and then requires exactly 64 labels: with any other number the loss computation
  raises, since 64 rows of scores meet another number of labels. With 64 labels it raises
  on the first label that is no class index; otherwise it completes, and its result is
  the library's: the parameters after zeroing the gradients, the backward pass of the
  loss and the optimizer step, with the five calls in this order. The training loop
  resizes each batch to (its own number of images) x 784 and so processes every batch of
  the loader, a final partial batch included.
\<close>

theorem single_step_batch_size:
  "(\<forall>bs s. single_step L (b # bs) s =
       (if length (labels b) \<noteq> 64 then Inl (BatchSizeError 64 (length (labels b)))
        else (case bad_target 10 (labels b) of
                Some t \<Rightarrow> Inl (TargetOutOfBounds t)
              | None \<Rightarrow>
                  Inr \<lparr>params = step_params L s 64 b,
                       trace = [ZeroGrad, Forward [64, 784], Loss (step_loss L s 64 b),
                                Backward, Step]\<rparr>)))
   \<and> (wf_batch b \<and> 0 < print_every \<longrightarrow>
        (\<exists>r'. train_batch L epochs print_every e b r = Inr r'
           \<and> params r' = step_params L (params r) (length (labels b)) b
           \<and> take 5 (drop (length (trace r)) (trace r'))
               = [ZeroGrad, Forward [length (labels b), 784],
                  Loss (step_loss L (params r) (length (labels b)) b), Backward, Step]
           \<and> steps r' = steps r + 1))"
  using train_batch_result [of b print_every L epochs e r]
  by (auto simp: single_step_result batch_events_def)

theorem single_step_batch_size_witness:
  "single_step log_torch [demo_batch 32 784] [] = Inl (BatchSizeError 64 32)
   \<and> single_step log_torch [demo_batch 64 784] []
       = Inr \<lparr>params = [''zero_grad'', ''backward'', ''step''],
              trace = [ZeroGrad, Forward [64, 784], Loss 1, Backward, Step]\<rparr>
   \<and> (\<exists>r'. train_batch log_torch 3 40 0 (demo_batch 32 784)
              \<lparr>params = [], trace = [], steps = 0, running_loss = 0\<rparr> = Inr r'
          \<and> params r' = [''zero_grad'', ''backward'', ''step'']
          \<and> take 5 (trace r') = [ZeroGrad, Forward [32, 784], Loss 1, Backward, Step]
          \<and> steps r' = 1)"
proof -
  let ?r = "\<lparr>params = [], trace = [], steps = 0, running_loss = 0\<rparr> :: string list run"
  have w: "wf_batch (demo_batch 32 784) \<and> (0::nat) < 40" by (simp add: wf_demo_batch)
  note T = single_step_batch_size [of log_torch "demo_batch 32 784" 40 3 0 ?r]
  note U = single_step_batch_size [of log_torch "demo_batch 64 784" 40 3 0 ?r]
  from T have a: "single_step log_torch [demo_batch 32 784] [] = Inl (BatchSizeError 64 32)"
    by simp
  from U have b: "single_step log_torch [demo_batch 64 784] []
       = Inr \<lparr>params = [''zero_grad'', ''backward'', ''step''],
              trace = [ZeroGrad, Forward [64, 784], Loss 1, Backward, Step]\<rparr>"
    by (simp add: step_params_log_torch step_loss_log_torch)
  from T w have c: "\<exists>r'. train_batch log_torch 3 40 0 (demo_batch 32 784) ?r = Inr r'
          \<and> params r' = [''zero_grad'', ''backward'', ''step'']
          \<and> take 5 (trace r') = [ZeroGrad, Forward [32, 784], Loss 1, Backward, Step]
          \<and> steps r' = 1"
    by (simp add: step_params_log_torch step_loss_log_torch)
  from a b c show ?thesis by blast
qed

text \<open>
  A batch of 64 images of two elements each, not 784: the resize gives 64 x 784 all the
  same and the step completes.
\<close>

theorem single_step_elements_counterexample:
  "single_step log_torch [demo_batch 64 2] []
     = Inr \<lparr>params = [''zero_grad'', ''backward'', ''step''],
            trace = [ZeroGrad, Forward [64, 784], Loss 1, Backward, Step]\<rparr>"
  by (simp add: single_step_result step_params_log_torch step_loss_log_torch)

section \<open>Traces of the training loop\<close>

lemma losses_append [simp]: "losses (xs @ ys) = losses xs @ losses ys"
  by (induction xs rule: losses.induct) simp_all

lemma losses_batch_events [simp]: "losses (batch_events b l) = [l]"
  by (simp add: batch_events_def)

lemma filter_batch_events [simp]:
  "filter (\<lambda>ev. \<not> is_print ev) (batch_events b l) = batch_events b l"
  by (simp add: batch_events_def)

lemma eval_batch_events [simp]: "filter is_eval (batch_events b l) = []"
  by (simp add: batch_events_def)

lemma prints_batch_events [simp]: "filter is_print (batch_events b l) = []"
  by (simp add: batch_events_def)

lemma no_print_batch_events [simp]: "ev \<in> set (batch_events b l) \<Longrightarrow> \<not> is_print ev"
  by (auto simp: batch_events_def)


lemma run_events_append:
  "run_events L s (xs @ ys) = run_events L s xs @ run_events L (run_params L s xs) ys"
  by (induction xs arbitrary: s) simp_all

lemma run_params_append:
  "run_params L s (xs @ ys) = run_params L (run_params L s xs) ys"
  by (induction xs arbitrary: s) simp_all

lemma length_losses_run_events [simp]: "length (losses (run_events L s bs)) = length bs"
  by (induction bs arbitrary: s) simp_all

lemma count_run_events:
  "length (filter (\<lambda>ev. ev = Backward) (run_events L s bs)) = length bs
   \<and> length (filter (\<lambda>ev. ev = Step) (run_events L s bs)) = length bs"
  by (induction bs arbitrary: s) (simp_all add: batch_events_def)

lemma filter_through_prints:
  assumes "\<not> is_print x"
  shows "filter (\<lambda>ev. ev = x) tr = filter (\<lambda>ev. ev = x) (filter (\<lambda>ev. \<not> is_print ev) tr)"
  using assms by (induction tr) auto


lemma print_flags_batch:
  "print_flags (batch_events b l @ Print e n v # ZeroGrad # evs) = True # print_flags (ZeroGrad # evs)"
  "print_flags (batch_events b l @ [Print e n v]) = [True]"
  "print_flags (batch_events b l @ ZeroGrad # evs) = False # print_flags (ZeroGrad # evs)"
  "print_flags (batch_events b l) = [False]"
  by (simp_all add: batch_events_def)

lemma div_step:
  assumes "0 < (p::nat)"
  shows "Suc k div p = k div p + (if Suc k mod p = 0 then 1 else 0)"
  using assms by (simp add: div_Suc)

text \<open>
  The batches of one epoch, from any state of the run: the loop reaches the end, and
  what it appended to the trace starts with a batch unless it is empty.
\<close>

lemma train_batches_result:
  assumes "\<forall>b\<in>set bs. wf_batch b" "0 < print_every"
  shows "\<exists>r' new. train_batches L epochs print_every e bs r = Inr r'
           \<and> steps r' = steps r + length bs
           \<and> params r' = run_params L (params r) bs
           \<and> trace r' = trace r @ new
           \<and> filter (\<lambda>ev. \<not> is_print ev) new = run_events L (params r) bs
           \<and> print_flags new
               = map (\<lambda>k. k mod print_every = 0) [steps r + 1..<steps r + 1 + length bs]
           \<and> length (filter is_print new) = (steps r + length bs) div print_every - steps r div print_every
           \<and> filter is_eval new = []
           \<and> (new = [] \<or> (\<exists>evs. new = ZeroGrad # evs))"
  using assms(1)
proof (induction bs arbitrary: r)
  case Nil
  show ?case by simp
next
  case (Cons b bs)
  from Cons.prems have wb: "wf_batch b" and wbs: "\<forall>b\<in>set bs. wf_batch b" by simp_all
  let ?l = "step_loss L (params r) (length (labels b)) b"
  let ?p = "if (steps r + 1) mod print_every = 0
            then [Print (e + 1) epochs ((running_loss r + ?l) / real print_every)] else []"
  from train_batch_result [OF wb assms(2), of L epochs e r]
  obtain r1 where r1: "train_batch L epochs print_every e b r = Inr r1"
    and s1: "steps r1 = steps r + 1"
    and p1: "params r1 = step_params L (params r) (length (labels b)) b"
    and t1: "trace r1 = trace r @ batch_events b ?l @ ?p"
    by simp
  from Cons.IH [OF wbs, of r1]
  obtain r' new where r': "train_batches L epochs print_every e bs r1 = Inr r'"
    and s': "steps r' = steps r1 + length bs"
    and p': "params r' = run_params L (params r1) bs"
    and t': "trace r' = trace r1 @ new"
    and f: "filter (\<lambda>ev. \<not> is_print ev) new = run_events L (params r1) bs"
    and g: "print_flags new
        = map (\<lambda>k. k mod print_every = 0) [steps r1 + 1..<steps r1 + 1 + length bs]"
    and c: "length (filter is_print new)
        = (steps r1 + length bs) div print_every - steps r1 div print_every"
    and v: "filter is_eval new = []"
    and h: "new = [] \<or> (\<exists>evs. new = ZeroGrad # evs)"
    by blast
  have e1: "Suc (steps r + 1) = steps r1 + 1"
    and e2: "steps r + 1 + length (b # bs) = steps r1 + 1 + length bs"
    by (simp_all add: s1)
  have "[steps r + 1..<steps r + 1 + length (b # bs)]
      = (steps r + 1) # [Suc (steps r + 1)..<steps r + 1 + length (b # bs)]"
    by (rule upt_conv_Cons) simp
  also have "[Suc (steps r + 1)..<steps r + 1 + length (b # bs)]
      = [steps r1 + 1..<steps r1 + 1 + length bs]"
    by (simp only: e1 e2)
  finally have upt: "[steps r + 1..<steps r + 1 + length (b # bs)]
      = (steps r + 1) # [steps r1 + 1..<steps r1 + 1 + length bs]" .
  have flags: "print_flags (batch_events b ?l @ ?p @ new)
      = ((steps r + 1) mod print_every = 0) # print_flags new"
    using h by (auto simp: print_flags_batch)
  have mono: "steps r div print_every \<le> Suc (steps r) div print_every"
    "Suc (steps r) div print_every \<le> (Suc (steps r) + length bs) div print_every"
    by (simp_all add: div_le_mono)
  have count: "length (filter is_print (batch_events b ?l @ ?p @ new))
      = (steps r + length (b # bs)) div print_every - steps r div print_every"
    using mono div_step [OF assms(2), of "steps r"] by (simp add: c s1)
  show ?case
  proof (intro exI conjI)
    show "train_batches L epochs print_every e (b # bs) r = Inr r'" by (simp add: r1 r')
    show "steps r' = steps r + length (b # bs)" by (simp add: s' s1)
    show "params r' = run_params L (params r) (b # bs)" by (simp add: p' p1)
    show "trace r' = trace r @ (batch_events b ?l @ ?p @ new)" by (simp add: t' t1)
    show "filter (\<lambda>ev. \<not> is_print ev) (batch_events b ?l @ ?p @ new)
        = run_events L (params r) (b # bs)"
      by (simp add: f p1)
    show "print_flags (batch_events b ?l @ ?p @ new)
        = map (\<lambda>k. k mod print_every = 0) [steps r + 1..<steps r + 1 + length (b # bs)]"
      unfolding flags upt by (simp add: g)
    show "length (filter is_print (batch_events b ?l @ ?p @ new))
        = (steps r + length (b # bs)) div print_every - steps r div print_every"
      by (rule count)
    show "filter is_eval (batch_events b ?l @ ?p @ new) = []" by (simp add: v)
    show "batch_events b ?l @ ?p @ new = [] \<or> (\<exists>evs. batch_events b ?l @ ?p @ new = ZeroGrad # evs)"
      by (simp add: batch_events_def)
  qed
qed

lemma print_flags_append:
  "print_flags (xs @ ZeroGrad # ys) = print_flags xs @ print_flags (ZeroGrad # ys)"
  by (induction xs rule: print_flags.induct) simp_all

lemma train_epochs_result:
  assumes "\<forall>e\<in>set es. \<forall>b\<in>set (trainloader e). wf_batch b" "0 < print_every"
  shows "\<exists>r' new. train_epochs L epochs print_every trainloader es r = Inr r'
           \<and> steps r' = steps r + length (concat (map trainloader es))
           \<and> params r' = run_params L (params r) (concat (map trainloader es))
           \<and> trace r' = trace r @ new
           \<and> filter (\<lambda>ev. \<not> is_print ev) new
               = run_events L (params r) (concat (map trainloader es))
           \<and> print_flags new
               = map (\<lambda>k. k mod print_every = 0)
                   [steps r + 1..<steps r + 1 + length (concat (map trainloader es))]
           \<and> length (filter is_print new)
               = (steps r + length (concat (map trainloader es))) div print_every
                 - steps r div print_every
           \<and> filter is_eval new = []
           \<and> (new = [] \<or> (\<exists>evs. new = ZeroGrad # evs))"
  using assms(1)
proof (induction es arbitrary: r)
  case Nil
  show ?case by simp
next
  case (Cons e es)
  let ?bs = "trainloader e"
  let ?rest = "concat (map trainloader es)"
  from Cons.prems have we: "\<forall>b\<in>set ?bs. wf_batch b"
    and wes: "\<forall>e\<in>set es. \<forall>b\<in>set (trainloader e). wf_batch b" by simp_all
  from train_batches_result [OF we assms(2), of L epochs e "r\<lparr>running_loss := 0\<rparr>"]
  obtain r1 new1 where r1: "train_epoch L epochs print_every trainloader e r = Inr r1"
    and s1: "steps r1 = steps r + length ?bs"
    and p1: "params r1 = run_params L (params r) ?bs"
    and t1: "trace r1 = trace r @ new1"
    and f1: "filter (\<lambda>ev. \<not> is_print ev) new1 = run_events L (params r) ?bs"
    and g1: "print_flags new1
        = map (\<lambda>k. k mod print_every = 0) [steps r + 1..<steps r + 1 + length ?bs]"
    and c1: "length (filter is_print new1)
        = (steps r + length ?bs) div print_every - steps r div print_every"
    and v1: "filter is_eval new1 = []"
    and h1: "new1 = [] \<or> (\<exists>evs. new1 = ZeroGrad # evs)"
    by (auto simp: train_epoch_def)
  from Cons.IH [OF wes, of r1]
  obtain r' new where r': "train_epochs L epochs print_every trainloader es r1 = Inr r'"
    and s': "steps r' = steps r1 + length ?rest"
    and p': "params r' = run_params L (params r1) ?rest"
    and t': "trace r' = trace r1 @ new"
    and f: "filter (\<lambda>ev. \<not> is_print ev) new = run_events L (params r1) ?rest"
    and g: "print_flags new
        = map (\<lambda>k. k mod print_every = 0) [steps r1 + 1..<steps r1 + 1 + length ?rest]"
    and c: "length (filter is_print new)
        = (steps r1 + length ?rest) div print_every - steps r1 div print_every"
    and v: "filter is_eval new = []"
    and h: "new = [] \<or> (\<exists>evs. new = ZeroGrad # evs)"
    by blast
  have upt: "[steps r + 1..<steps r + 1 + length (concat (map trainloader (e # es)))]
      = [steps r + 1..<steps r + 1 + length ?bs] @ [steps r1 + 1..<steps r1 + 1 + length ?rest]"
    using upt_add_eq_append [of "steps r + 1" "steps r + 1 + length ?bs" "length ?rest"]
    by (simp add: s1 add.assoc)
  have flags: "print_flags (new1 @ new) = print_flags new1 @ print_flags new"
    using h by (auto simp: print_flags_append)
  have mono: "steps r div print_every \<le> (steps r + length ?bs) div print_every"
    "(steps r + length ?bs) div print_every \<le> (steps r + length ?bs + length ?rest) div print_every"
    by (simp_all add: div_le_mono)
  show ?case
  proof (intro exI conjI)
    show "train_epochs L epochs print_every trainloader (e # es) r = Inr r'"
      by (simp add: r1 r')
    show "steps r' = steps r + length (concat (map trainloader (e # es)))"
      by (simp add: s' s1)
    show "params r' = run_params L (params r) (concat (map trainloader (e # es)))"
      by (simp add: p' p1 run_params_append)
    show "trace r' = trace r @ (new1 @ new)" by (simp add: t' t1)
    show "filter (\<lambda>ev. \<not> is_print ev) (new1 @ new)
        = run_events L (params r) (concat (map trainloader (e # es)))"
      by (simp add: f1 f p1 run_events_append)
    show "print_flags (new1 @ new)
        = map (\<lambda>k. k mod print_every = 0)
            [steps r + 1..<steps r + 1 + length (concat (map trainloader (e # es)))]"
      unfolding flags upt by (simp add: g1 g)
    show "length (filter is_print (new1 @ new))
        = (steps r + length (concat (map trainloader (e # es)))) div print_every
          - steps r div print_every"
      using mono by (simp add: c1 c s1 add.assoc)
    show "filter is_eval (new1 @ new) = []" by (simp add: v1 v)
    show "new1 @ new = [] \<or> (\<exists>evs. new1 @ new = ZeroGrad # evs)"
      using h1 h by auto
  qed
qed

lemma train_result:
  assumes "0 < print_every"
    and "\<forall>e<epochs. \<forall>b\<in>set (trainloader e). wf_batch b"
  shows "\<exists>r. train L epochs print_every trainloader s0 = Inr r
           \<and> steps r = length (all_batches trainloader epochs)
           \<and> params r = run_params L s0 (all_batches trainloader epochs)
           \<and> filter (\<lambda>ev. \<not> is_print ev) (trace r)
               = run_events L s0 (all_batches trainloader epochs)
           \<and> print_flags (trace r)
               = map (\<lambda>k. k mod print_every = 0) [1..<1 + length (all_batches trainloader epochs)]
           \<and> length (filter is_print (trace r))
               = length (all_batches trainloader epochs) div print_every
           \<and> filter is_eval (trace r) = []"
proof -
  let ?r0 = "\<lparr>params = s0, trace = [], steps = 0, running_loss = 0\<rparr>"
  from assms(2) have "\<forall>e\<in>set [0..<epochs]. \<forall>b\<in>set (trainloader e). wf_batch b" by simp
  from train_epochs_result [OF this assms(1), of L epochs ?r0]
  show ?thesis
    by (auto simp: train_def all_batches_def)
qed


lemma all_batches_demo_loader:
  "all_batches demo_loader 2
     = [demo_batch 64 784, demo_batch 32 784, demo_batch 64 784, demo_batch 32 784]"
  by (simp add: all_batches_def demo_loader_def numeral_2_eq_2)

lemma wf_demo_loader: "\<forall>e<n. \<forall>b\<in>set (demo_loader e). wf_batch b"
  by (simp add: demo_loader_def wf_demo_batch)

text \<open>
  C4. Let every batch of the loader be well formed and \<open>print_every\<close> positive. The
  training loop then runs to its end. Its trace, the prints left out, is for each batch
  in the order of the loader: zero the gradients, forward pass on the resized images,
  loss of the scores and the labels, backward pass, optimizer step, each on the
  parameters that the calls before it have left; the parameters at the end are those
  that these calls of the library produce from the initial ones. The trace holds as many
  backward passes and as many optimizer steps as there are batches.
\<close>

theorem train_batch_order:
  assumes "0 < print_every"
    and "\<forall>e<epochs. \<forall>b\<in>set (trainloader e). wf_batch b"
  shows "\<exists>r. train L epochs print_every trainloader s0 = Inr r
           \<and> steps r = length (all_batches trainloader epochs)
           \<and> params r = run_params L s0 (all_batches trainloader epochs)
           \<and> filter (\<lambda>ev. \<not> is_print ev) (trace r)
               = run_events L s0 (all_batches trainloader epochs)
           \<and> length (filter (\<lambda>ev. ev = Backward) (trace r)) = length (all_batches trainloader epochs)
           \<and> length (filter (\<lambda>ev. ev = Step) (trace r)) = length (all_batches trainloader epochs)"
proof -
  from train_result [OF assms, of L s0]
  obtain r where r: "train L epochs print_every trainloader s0 = Inr r"
    and s: "steps r = length (all_batches trainloader epochs)"
    and p: "params r = run_params L s0 (all_batches trainloader epochs)"
    and f: "filter (\<lambda>ev. \<not> is_print ev) (trace r)
        = run_events L s0 (all_batches trainloader epochs)"
    by blast
  have "length (filter (\<lambda>ev. ev = Backward) (trace r)) = length (all_batches trainloader epochs)"
    and "length (filter (\<lambda>ev. ev = Step) (trace r)) = length (all_batches trainloader epochs)"
    using count_run_events [of L s0 "all_batches trainloader epochs"]
      filter_through_prints [of Backward "trace r"] filter_through_prints [of Step "trace r"]
    by (simp_all add: f)
  with r s p f show ?thesis by blast
qed

theorem train_batch_order_witness:
  "\<exists>r. train log_torch 2 2 demo_loader [] = Inr r
      \<and> steps r = 4
      \<and> params r = [''zero_grad'', ''backward'', ''step'', ''zero_grad'', ''backward'', ''step'',
                    ''zero_grad'', ''backward'', ''step'', ''zero_grad'', ''backward'', ''step'']
      \<and> filter (\<lambda>ev. \<not> is_print ev) (trace r)
          = [ZeroGrad, Forward [64, 784], Loss 1, Backward, Step,
             ZeroGrad, Forward [32, 784], Loss 4, Backward, Step,
             ZeroGrad, Forward [64, 784], Loss 7, Backward, Step,
             ZeroGrad, Forward [32, 784], Loss 10, Backward, Step]
      \<and> length (filter (\<lambda>ev. ev = Backward) (trace r)) = 4
      \<and> length (filter (\<lambda>ev. ev = Step) (trace r)) = 4"
proof -
  have pe: "(0::nat) < 2" by simp
  have len: "length (all_batches demo_loader 2) = 4"
    by (simp add: all_batches_demo_loader)
  have rp: "run_params log_torch [] (all_batches demo_loader 2)
      = [''zero_grad'', ''backward'', ''step'', ''zero_grad'', ''backward'', ''step'',
         ''zero_grad'', ''backward'', ''step'', ''zero_grad'', ''backward'', ''step'']"
    by (simp add: all_batches_demo_loader step_params_log_torch)
  have re: "run_events log_torch [] (all_batches demo_loader 2)
      = [ZeroGrad, Forward [64, 784], Loss 1, Backward, Step,
         ZeroGrad, Forward [32, 784], Loss 4, Backward, Step,
         ZeroGrad, Forward [64, 784], Loss 7, Backward, Step,
         ZeroGrad, Forward [32, 784], Loss 10, Backward, Step]"
    by (simp add: all_batches_demo_loader step_params_log_torch step_loss_log_torch
        batch_events_def)
  from train_batch_order [where L = log_torch and ?s0.0 = "[]" and print_every = 2 and epochs = 2
      and trainloader = demo_loader, OF pe wf_demo_loader]
  obtain r where a: "train log_torch 2 2 demo_loader [] = Inr r"
    and b: "steps r = length (all_batches demo_loader 2)"
    and c: "params r = run_params log_torch [] (all_batches demo_loader 2)"
    and d: "filter (\<lambda>ev. \<not> is_print ev) (trace r)
        = run_events log_torch [] (all_batches demo_loader 2)"
    and e: "length (filter (\<lambda>ev. ev = Backward) (trace r)) = length (all_batches demo_loader 2)"
    and f: "length (filter (\<lambda>ev. ev = Step) (trace r)) = length (all_batches demo_loader 2)"
    by blast
  show ?thesis
    by (rule exI [of _ r]) (simp only: a b c d e f len rp re simp_thms)
qed









section \<open>Evaluation while training\<close>

text \<open>
  The loop that evaluates while it trains is the training function of \<open>fc_model\<close>,
  which the notebook on saving and loading calls. On a step that is a multiple of
  \<open>print_every\<close> it evaluates the parameters the optimizer step has just produced on
  the held-out loader and prints the line after that step.
\<close>

lemma fc_train_batch_evaluates:
  assumes "0 < print_every" "(steps r + 1) mod print_every = 0"
  shows "fc_train_batch L epochs print_every testloader e b r =
     Inr (r\<lparr>params := grad_step L (params r) b,
            trace := trace r @
              [Loss (batch_loss L (params r) b), Backward, Step,
               PrintEval (e + 1) epochs
                 ((running_loss r + batch_loss L (params r) b) / real print_every)
                 (fst (validation L (grad_step L (params r) b) testloader) / real (length testloader))
                 (snd (validation L (grad_step L (params r) b) testloader) / real (length testloader))],
            steps := steps r + 1,
            running_loss := 0\<rparr>)"
  using assms by (simp add: fc_train_batch_def Let_def split_beta)

lemma fc_train_demo:
  "fc_train demo_learner 1 2 demo_loader [demo_batch 64 784] ()
     = Inr \<lparr>params = (),
            trace = [Loss 1, Backward, Step, Loss 1, Backward, Step, PrintEval 1 1 1 1 (1 / 2)],
            steps = 2, running_loss = 0\<rparr>"
  by (simp add: fc_train_def demo_loader_def fc_train_batch_def validation_def demo_learner_def
      Let_def)

section \<open>The architecture of the classifier\<close>

text \<open>
  The network of the training notebook alternates linear layers and the non-linearity,
  with fixed sizes and without dropout.
\<close>

lemma model_no_dropout: "Dropout p \<notin> set (map snd model)"
  by (simp add: model_layers)

lemma features_mk_hidden:
  "map (\<lambda>l. (in_features l, out_features l)) (mk_hidden rnd k i hs) = zip (i # hs) hs"
  by (induction hs arbitrary: i k) simp_all

lemma forward_shape_hidden:
  "forward_shape
     (concat (map (\<lambda>(a, b). [LinearL a b, ReLU, Dropout p]) (zip (i # hs) hs)) @ rest) (pre @ [i])
   = forward_shape rest (pre @ [last (i # hs)])"
  by (induction hs arbitrary: i) simp_all

lemma network_layers_Network:
  "network_layers (Network rnd i n hs) =
     concat (map (\<lambda>(a, b). [LinearL a b, ReLU, Dropout (1 / 2)]) (zip (i # hs) hs))
     @ [LinearL (last (i # hs)) n]"
proof -
  have "map (\<lambda>l. [LinearL (in_features l) (out_features l), ReLU, Dropout (1 / 2)])
          (mk_hidden rnd 0 i hs)
      = map (\<lambda>(a, b). [LinearL a b, ReLU, Dropout (1 / 2)])
          (map (\<lambda>l. (in_features l, out_features l)) (mk_hidden rnd 0 i hs))"
    by simp
  then show ?thesis
    by (simp only: network_layers_def features_mk_hidden)
      (simp add: Network_def)
qed

text \<open>
  C6. The classifier built by \<open>Network\<close> from an input size, an output size and any list
  of hidden-layer widths has these widths; its modules are, for each hidden layer, a
  linear transform followed by the non-linearity and dropout, from the input size through
  the widths in order, and then a final linear layer onto the output size; and on a batch
  of rows of the input size the forward pass gives one row of class scores, of the output
  size, for each.
\<close>

theorem network_architecture:
  "hidden_widths (Network rnd i n hs) = hs
   \<and> network_layers (Network rnd i n hs) =
       concat (map (\<lambda>(a, b). [LinearL a b, ReLU, Dropout (1 / 2)]) (zip (i # hs) hs))
       @ [LinearL (last (i # hs)) n]
   \<and> network_forward (Network rnd i n hs) [rows, i] = Inr [rows, n]"
proof -
  have "forward_shape (network_layers (Network rnd i n hs)) ([rows] @ [i]) = Inr [rows, n]"
    unfolding network_layers_Network forward_shape_hidden by simp
  then show ?thesis
    by (simp add: network_forward_def network_layers_Network)
qed

end
